theory Spec2Isabelle
  imports Complex_Main
begin

section \<open>GNATFinder: numbers\<close>

text \<open>
  The second-order activity graph finder is written in C. Its structs are modelled as
  records and its linked lists as HOL lists (the \<open>next\<close> and \<open>prev\<close> pointers are the list
  structure). The numbers are those of the x86-64 build of the program: a \<open>long\<close> has 64
  bits, an \<open>int\<close> 32, a \<open>float\<close> is an IEEE binary32 number and every float operation is
  rounded to binary32 (round to nearest, ties to even).
\<close>

subsection \<open>Binary32\<close>

text \<open>
  A \<open>float\<close> is a finite number, an infinity or a NaN. \<open>Finite x\<close> stands for a binary32
  number when the real \<open>x\<close> is one; every operation returns its result rounded by \<open>round32\<close>,
  so the operations take binary32 numbers to binary32 numbers. The sign of a zero is not modelled:
  the zero of the model is \<open>+0\<close>. The two zeros of binary32 compare equal, convert to the
  same \<open>int\<close> and add alike to every other number; they differ as divisors only, and the
  one division of the program by a number that can be a zero is the division by the time
  constant \<open>tau\<close> in \<open>compute_gamma\<close>: a time constant \<open>-0.0\<close> is outside the model.
\<close>

datatype float = Finite real | PosInf | NegInf | NaN

text \<open>Rounding a real to the nearest integer, ties to the even one.\<close>

definition round_even :: "real \<Rightarrow> int" where
  "round_even y =
     (let f = \<lfloor>y\<rfloor>; d = y - real_of_int f
      in if d < 1 / 2 then f else if 1 / 2 < d then f + 1 else if even f then f else f + 1)"

text \<open>
  The exponent \<open>q\<close> of the unit in the last place of \<open>x\<close>: the least \<open>q \<ge> -149\<close> with
  \<open>\<bar>x\<bar> < 2 ^ (q + 24)\<close>, found by counting up from \<open>-149\<close> (the subnormal numbers); \<open>105\<close>
  says that \<open>\<bar>x\<bar>\<close> is \<open>2 ^ 128\<close> or more.
\<close>

function ulp_exp_from :: "real \<Rightarrow> int \<Rightarrow> int" where
  "ulp_exp_from x q = (if 105 \<le> q \<or> \<bar>x\<bar> < 2 powi (q + 24) then q else ulp_exp_from x (q + 1))"
  by pat_completeness auto
termination
  by (relation "measure (\<lambda>(x, q). nat (105 - q))") auto

declare ulp_exp_from.simps [simp del]

definition ulp_exp :: "real \<Rightarrow> int" where
  "ulp_exp x = ulp_exp_from x (- 149)"

text \<open>
  The binary32 value of a real: the nearest multiple of the unit in the last place, an
  infinity when that is \<open>2 ^ 128\<close> or more in magnitude.
\<close>

definition round32 :: "real \<Rightarrow> float" where
  "round32 x =
     (let q = ulp_exp x;
          r = real_of_int (round_even (x / 2 powi q)) * 2 powi q
      in if 2 ^ 128 \<le> \<bar>r\<bar> then (if 0 < x then PosInf else NegInf) else Finite r)"

fun float_neg :: "float \<Rightarrow> float" where
  "float_neg (Finite x) = Finite (- x)"
| "float_neg PosInf = NegInf"
| "float_neg NegInf = PosInf"
| "float_neg NaN = NaN"

fun float_add :: "float \<Rightarrow> float \<Rightarrow> float" where
  "float_add (Finite x) (Finite y) = round32 (x + y)"
| "float_add NaN b = NaN"
| "float_add a NaN = NaN"
| "float_add PosInf NegInf = NaN"
| "float_add NegInf PosInf = NaN"
| "float_add PosInf b = PosInf"
| "float_add a PosInf = PosInf"
| "float_add NegInf b = NegInf"
| "float_add a NegInf = NegInf"

definition float_sub :: "float \<Rightarrow> float \<Rightarrow> float" where
  "float_sub a b = float_add a (float_neg b)"

fun float_mul :: "float \<Rightarrow> float \<Rightarrow> float" where
  "float_mul (Finite x) (Finite y) = round32 (x * y)"
| "float_mul NaN b = NaN"
| "float_mul a NaN = NaN"
| "float_mul (Finite x) PosInf = (if x = 0 then NaN else if 0 < x then PosInf else NegInf)"
| "float_mul (Finite x) NegInf = (if x = 0 then NaN else if 0 < x then NegInf else PosInf)"
| "float_mul PosInf (Finite y) = (if y = 0 then NaN else if 0 < y then PosInf else NegInf)"
| "float_mul NegInf (Finite y) = (if y = 0 then NaN else if 0 < y then NegInf else PosInf)"
| "float_mul PosInf PosInf = PosInf"
| "float_mul NegInf NegInf = PosInf"
| "float_mul PosInf NegInf = NegInf"
| "float_mul NegInf PosInf = NegInf"

fun float_div :: "float \<Rightarrow> float \<Rightarrow> float" where
  "float_div (Finite x) (Finite y) =
     (if y = 0 then (if x = 0 then NaN else if 0 < x then PosInf else NegInf)
      else round32 (x / y))"
| "float_div NaN b = NaN"
| "float_div a NaN = NaN"
| "float_div (Finite x) PosInf = Finite 0"
| "float_div (Finite x) NegInf = Finite 0"
| "float_div PosInf (Finite y) = (if 0 \<le> y then PosInf else NegInf)"
| "float_div NegInf (Finite y) = (if 0 \<le> y then NegInf else PosInf)"
| "float_div PosInf b = NaN"
| "float_div NegInf b = NaN"

text \<open>Comparisons: every comparison with a NaN is false.\<close>

fun float_lt :: "float \<Rightarrow> float \<Rightarrow> bool" where
  "float_lt (Finite x) (Finite y) = (x < y)"
| "float_lt NaN b = False"
| "float_lt a NaN = False"
| "float_lt a NegInf = False"
| "float_lt PosInf b = False"
| "float_lt NegInf b = True"
| "float_lt a PosInf = True"

fun float_le :: "float \<Rightarrow> float \<Rightarrow> bool" where
  "float_le (Finite x) (Finite y) = (x \<le> y)"
| "float_le NaN b = False"
| "float_le a NaN = False"
| "float_le NegInf b = True"
| "float_le a PosInf = True"
| "float_le a NegInf = False"
| "float_le PosInf b = False"

definition float_ge :: "float \<Rightarrow> float \<Rightarrow> bool" where
  "float_ge a b = float_le b a"

subsection \<open>Integers\<close>

text \<open>
  A \<open>long\<close> or an \<open>int\<close> converted to \<open>float\<close> is rounded. A \<open>float\<close> converted to \<open>int\<close>
  loses its fractional part (rounds toward zero); when the result does not fit an \<open>int\<close>,
  or the float is not finite, the conversion is undefined in C and gives \<open>INT_MIN\<close> on
  x86-64. \<open>abs\<close> is the \<open>int abs(int)\<close> of \<open>stdlib.h\<close>; \<open>abs(INT_MIN)\<close> is undefined in C and
  is \<open>INT_MIN\<close> on x86-64. Arithmetic on \<open>long\<close> wraps around at 64 bits (undefined in C).
\<close>

definition INT_MIN :: int where
  "INT_MIN = - 2147483648"

definition INT_MAX :: int where
  "INT_MAX = 2147483647"

definition float_of_int :: "int \<Rightarrow> float" where
  "float_of_int i = round32 (real_of_int i)"

definition c_int_of_float :: "float \<Rightarrow> int" where
  "c_int_of_float f =
     (case f of
        Finite d \<Rightarrow>
          (let t = (if 0 \<le> d then \<lfloor>d\<rfloor> else - \<lfloor>- d\<rfloor>)
           in if INT_MIN \<le> t \<and> t \<le> INT_MAX then t else INT_MIN)
      | PosInf \<Rightarrow> INT_MIN
      | NegInf \<Rightarrow> INT_MIN
      | NaN \<Rightarrow> INT_MIN)"

definition c_abs :: "int \<Rightarrow> int" where
  "c_abs i = (if i = INT_MIN then INT_MIN else if i < 0 then - i else i)"

definition c_long :: "int \<Rightarrow> int" where
  "c_long i = (i + 9223372036854775808) mod 18446744073709551616 - 9223372036854775808"

section \<open>Data model\<close>

record Spike =
  n_id :: nat
  ts :: int

record SpikePair =
  sp1 :: Spike
  sp2 :: Spike

record BoundingBox =
  c_x :: float
  c_y :: float
  w2 :: float

record Synapse =
  src_id :: nat
  tgt_id :: nat
  rel_w :: float
  neg_log_rel_w :: float
  delay :: float

text \<open>
  A \<open>struct QuadTree\<close> whose \<open>NW\<close> pointer is \<open>NULL\<close> is a \<open>Leaf\<close>; \<open>QTreeSubdivide\<close> sets
  the four child pointers together, which gives a \<open>Node\<close>. Both keep the fields
  \<open>capacity\<close>, \<open>bdry\<close> and \<open>pairs\<close> of the struct.
\<close>

datatype QuadTree =
    Leaf (capacity: int) (bdry: BoundingBox) (pairs: "SpikePair list")
  | Node (capacity: int) (bdry: BoundingBox) (pairs: "SpikePair list")
      (NW: QuadTree) (SW: QuadTree) (NE: QuadTree) (SE: QuadTree)

text \<open>
  Ways in which a run does not return a value: the bound on the depth of recursive calls
  of \<open>QTreeInsert\<close> is used up (\<open>OutOfFuel\<close>), a \<open>NULL\<close> pointer is dereferenced, an array
  is read past its end, or the program calls \<open>exit\<close> with a fatal message.
\<close>

datatype error = OutOfFuel | NullDeref | OutOfBounds | Fatal

definition QT_MAX_CAP :: int where
  "QT_MAX_CAP = 4"

definition LARGE_GAMMA :: int where
  "LARGE_GAMMA = 999999"

definition create_spike :: "nat \<Rightarrow> int \<Rightarrow> Spike" where
  "create_spike neuron_id timestamp = \<lparr>n_id = neuron_id, ts = timestamp\<rparr>"

definition spike_equals :: "Spike \<Rightarrow> Spike \<Rightarrow> bool" where
  "spike_equals s1 s2 = (let p1 = (n_id s1 = n_id s2); p2 = (ts s1 = ts s2) in p1 \<and> p2)"

definition create_spike_pair :: "Spike \<Rightarrow> Spike \<Rightarrow> SpikePair" where
  "create_spike_pair s1 s2 = \<lparr>sp1 = s1, sp2 = s2\<rparr>"

text \<open>The point of the plane that a spike pair stands for.\<close>

definition point :: "SpikePair \<Rightarrow> int \<times> int" where
  "point spp = (ts (sp1 spp), ts (sp2 spp))"

section \<open>Bounding boxes\<close>

definition BBoxCreate :: "float \<Rightarrow> float \<Rightarrow> float \<Rightarrow> BoundingBox" where
  "BBoxCreate center_x center_y half_width =
     \<lparr>c_x = center_x, c_y = center_y, w2 = half_width\<rparr>"

text \<open>
  In \<open>abs(spp->sp1->ts - bb->c_x) < bb->w2\<close> the \<open>long\<close> is converted to \<open>float\<close>, the
  difference is a float, \<open>abs\<close> takes it as an \<open>int\<close>, and the \<open>int\<close> it returns is
  converted to \<open>float\<close> for the comparison.
\<close>

definition BBoxContainsPoint :: "BoundingBox \<Rightarrow> SpikePair \<Rightarrow> bool" where
  "BBoxContainsPoint bb spp =
     (let s1 = float_lt (float_of_int (c_abs (c_int_of_float
                  (float_sub (float_of_int (ts (sp1 spp))) (c_x bb))))) (w2 bb);
          s2 = float_lt (float_of_int (c_abs (c_int_of_float
                  (float_sub (float_of_int (ts (sp2 spp))) (c_y bb))))) (w2 bb)
      in s1 \<and> s2)"

definition BBoxIntersects :: "BoundingBox \<Rightarrow> BoundingBox \<Rightarrow> bool" where
  "BBoxIntersects bb1 bb2 =
     (let d = float_add (w2 bb1) (w2 bb2);
          b1 = float_le (float_of_int (c_abs (c_int_of_float
                  (float_sub (c_x bb2) (c_x bb1))))) d;
          b2 = float_le (float_of_int (c_abs (c_int_of_float
                  (float_sub (c_y bb2) (c_y bb1))))) d
      in b1 \<and> b2)"

section \<open>Causal kernel\<close>

definition compute_gamma :: "Spike \<Rightarrow> Spike \<Rightarrow> Synapse \<Rightarrow> float \<Rightarrow> float" where
  "compute_gamma sp_pre sp_post edg tau =
     (let delta_t = float_of_int (c_long (ts sp_post - ts sp_pre));
          theta = (if float_ge delta_t (delay edg) then float_of_int 0 else float_of_int 1)
      in float_add (float_mul theta (float_of_int LARGE_GAMMA))
           (float_add (neg_log_rel_w edg) (float_div (float_sub delta_t (delay edg)) tau)))"

definition GNAT_test_for_edge ::
    "SpikePair \<Rightarrow> SpikePair \<Rightarrow> Synapse \<Rightarrow> float \<Rightarrow> float \<Rightarrow> bool" where
  "GNAT_test_for_edge pre post edg tau thresh =
     (let gamma_1 = compute_gamma (sp1 pre) (sp1 post) edg tau;
          gamma_2 = compute_gamma (sp2 pre) (sp2 post) edg tau
      in float_le gamma_1 thresh \<and> float_le gamma_2 thresh)"

text \<open>Shorthands for concrete inputs.\<close>

definition mk_pair :: "nat \<Rightarrow> int \<Rightarrow> int \<Rightarrow> SpikePair" where
  "mk_pair n t1 t2 = create_spike_pair (create_spike n t1) (create_spike n t2)"

definition unit_synapse :: "real \<Rightarrow> Synapse" where
  "unit_synapse dl =
     \<lparr>src_id = 0, tgt_id = 1, rel_w = Finite 1, neg_log_rel_w = Finite 0, delay = Finite dl\<rparr>"

section \<open>Quadtree\<close>

definition QTreeCreate :: "BoundingBox \<Rightarrow> QuadTree" where
  "QTreeCreate bbox = Leaf 0 bbox []"

definition is_leaf :: "QuadTree \<Rightarrow> bool" where
  "is_leaf qt = (case qt of Leaf _ _ _ \<Rightarrow> True | Node _ _ _ _ _ _ _ \<Rightarrow> False)"

text \<open>
  \<open>QTreeInsert\<close> and \<open>QTreeSubdivide\<close> call each other. The recursion need not end (the last
  section has an input on which it does not), so \<open>QTreeInsert\<close> takes a bound on the depth
  of its recursive calls, and \<open>QTreeSubdivide\<close> takes the inserter it calls, which is
  \<open>QTreeInsert\<close> at the remaining depth. An insertion returns the updated tree next to
  the C return value, also when that is \<open>FALSE\<close>: a failed insertion into a full leaf has
  subdivided it.

  Both functions offer the pair to the children in the order NW, SW, NE, SE and stop at the
  first child that accepts it; \<open>try_children\<close> is that sequence of calls.
\<close>

type_synonym inserter = "QuadTree \<Rightarrow> SpikePair \<Rightarrow> error + (QuadTree \<times> bool)"

definition try_children :: "inserter \<Rightarrow> QuadTree \<Rightarrow> SpikePair \<Rightarrow> error + (QuadTree \<times> bool)" where
  "try_children ins qt spp =
     (case qt of
        Leaf _ _ _ \<Rightarrow> Inl NullDeref
      | Node cap bd ps nw sw ne se \<Rightarrow>
          (case ins nw spp of
             Inl e \<Rightarrow> Inl e
           | Inr (nw', ok_nw) \<Rightarrow>
               if ok_nw then Inr (Node cap bd ps nw' sw ne se, True)
               else (case ins sw spp of
                  Inl e \<Rightarrow> Inl e
                | Inr (sw', ok_sw) \<Rightarrow>
                    if ok_sw then Inr (Node cap bd ps nw' sw' ne se, True)
                    else (case ins ne spp of
                       Inl e \<Rightarrow> Inl e
                     | Inr (ne', ok_ne) \<Rightarrow>
                         if ok_ne then Inr (Node cap bd ps nw' sw' ne' se, True)
                         else (case ins se spp of
                            Inl e \<Rightarrow> Inl e
                          | Inr (se', ok_se) \<Rightarrow>
                              Inr (Node cap bd ps nw' sw' ne' se', ok_se))))))"

lemma try_children_capacity:
  "try_children ins qt spp = Inr (qt', ok) \<Longrightarrow> capacity qt' = capacity qt"
  by (auto simp: try_children_def split: QuadTree.splits sum.splits prod.splits if_splits)

text \<open>The head of the pair list is popped: \<open>rest\<close> is its tail, and \<open>capacity\<close> is decremented.\<close>

definition pop_pair :: "QuadTree \<Rightarrow> SpikePair list \<Rightarrow> QuadTree" where
  "pop_pair qt rest =
     (case qt of
        Leaf cap bd ps \<Rightarrow> Leaf (cap - 1) bd rest
      | Node cap bd ps nw sw ne se \<Rightarrow> Node (cap - 1) bd rest nw sw ne se)"

text \<open>
  The \<open>while (qt->capacity > 0)\<close> loop of \<open>QTreeSubdivide\<close>. A pair that none of the four
  children accepts is not put anywhere: the loop goes on with the next pair.
\<close>

function QTreeSubdivide_loop :: "inserter \<Rightarrow> QuadTree \<Rightarrow> error + QuadTree" where
  "QTreeSubdivide_loop ins qt =
     (if capacity qt > 0 then
        (case pairs qt of
           [] \<Rightarrow> Inl NullDeref
         | spp # rest \<Rightarrow>
             (case try_children ins (pop_pair qt rest) spp of
                Inl e \<Rightarrow> Inl e
              | Inr (qt', _) \<Rightarrow> QTreeSubdivide_loop ins qt'))
      else Inr qt)"
  by pat_completeness auto
termination
proof (relation "measure (\<lambda>(ins, qt). nat (capacity qt))")
  show "wf (measure (\<lambda>(ins, qt). nat (capacity qt)))" by simp
next
  fix ins :: inserter and qt spp rest x2 qt' ok
  assume "0 < capacity qt" "try_children ins (pop_pair qt rest) spp = Inr x2" "(qt', ok) = x2"
  then have "capacity qt' = capacity (pop_pair qt rest)"
    using try_children_capacity [of ins "pop_pair qt rest" spp qt' ok] by simp
  also have "\<dots> = capacity qt - 1" by (cases qt) (simp_all add: pop_pair_def)
  finally show "((ins, qt'), (ins, qt)) \<in> measure (\<lambda>(ins, qt). nat (capacity qt))"
    using \<open>0 < capacity qt\<close> by simp
qed

declare QTreeSubdivide_loop.simps [simp del]

definition QTreeSubdivide :: "inserter \<Rightarrow> QuadTree \<Rightarrow> error + QuadTree" where
  "QTreeSubdivide ins qt =
     (let d2 = float_div (w2 (bdry qt)) (float_of_int 2);
          bbNW = BBoxCreate (float_sub (c_x (bdry qt)) d2) (float_add (c_y (bdry qt)) d2) d2;
          bbSW = BBoxCreate (float_sub (c_x (bdry qt)) d2) (float_sub (c_y (bdry qt)) d2) d2;
          bbNE = BBoxCreate (float_add (c_x (bdry qt)) d2) (float_add (c_y (bdry qt)) d2) d2;
          bbSE = BBoxCreate (float_add (c_x (bdry qt)) d2) (float_sub (c_y (bdry qt)) d2) d2
      in QTreeSubdivide_loop ins
           (Node (capacity qt) (bdry qt) (pairs qt)
              (QTreeCreate bbNW) (QTreeCreate bbSW) (QTreeCreate bbNE) (QTreeCreate bbSE)))"

primrec QTreeInsert :: "nat \<Rightarrow> QuadTree \<Rightarrow> SpikePair \<Rightarrow> error + (QuadTree \<times> bool)" where
  "QTreeInsert 0 qt spp = Inl OutOfFuel"
| "QTreeInsert (Suc fuel) qt spp =
     (if \<not> BBoxContainsPoint (bdry qt) spp then Inr (qt, False)
      else if capacity qt < QT_MAX_CAP \<and> is_leaf qt then
        (if capacity qt = 0 then Inr (Leaf 1 (bdry qt) [spp], True)
         else (case pairs qt of
                 [] \<Rightarrow> Inl NullDeref
               | p # ps \<Rightarrow> Inr (Leaf (capacity qt + 1) (bdry qt) (pairs qt @ [spp]), True)))
      else
        (case (if is_leaf qt then QTreeSubdivide (QTreeInsert fuel) qt else Inr qt) of
           Inl e \<Rightarrow> Inl e
         | Inr qt' \<Rightarrow> try_children (QTreeInsert fuel) qt' spp))"

declare QTreeInsert.simps [simp del]

text \<open>
  The visitor \<open>func\<close> is a C function pointer called for its effect; here it is a
  transformer of a state \<open>'s\<close>, applied to the pairs in the order of the calls.
\<close>

fun QTreeMapQueryRange ::
    "QuadTree \<Rightarrow> BoundingBox \<Rightarrow> (SpikePair \<Rightarrow> 's \<Rightarrow> 's) \<Rightarrow> 's \<Rightarrow> 's" where
  "QTreeMapQueryRange (Leaf cap bd ps) r func s =
     (if \<not> BBoxIntersects bd r then s else fold func ps s)"
| "QTreeMapQueryRange (Node cap bd ps nw sw ne se) r func s =
     (if \<not> BBoxIntersects bd r then s
      else QTreeMapQueryRange se r func
             (QTreeMapQueryRange ne r func
               (QTreeMapQueryRange sw r func
                 (QTreeMapQueryRange nw r func (fold func ps s)))))"

text \<open>The visitor that records the pairs it is called on, and the sequence of its calls.\<close>

definition collect :: "SpikePair \<Rightarrow> SpikePair list \<Rightarrow> SpikePair list" where
  "collect spp acc = acc @ [spp]"

definition visited :: "QuadTree \<Rightarrow> BoundingBox \<Rightarrow> SpikePair list" where
  "visited qt r = QTreeMapQueryRange qt r collect []"

text \<open>A sequence of calls of \<open>QTreeInsert\<close> on one tree, with the C return values.\<close>

fun insert_all :: "nat \<Rightarrow> QuadTree \<Rightarrow> SpikePair list \<Rightarrow> error + (QuadTree \<times> bool list)" where
  "insert_all fuel qt [] = Inr (qt, [])"
| "insert_all fuel qt (spp # spps) =
     (case QTreeInsert fuel qt spp of
        Inl e \<Rightarrow> Inl e
      | Inr (qt', ok) \<Rightarrow>
          (case insert_all fuel qt' spps of
             Inl e \<Rightarrow> Inl e
           | Inr (qt'', oks) \<Rightarrow> Inr (qt'', ok # oks)))"

text \<open>The pairs stored in a tree, node by node.\<close>

fun stored :: "QuadTree \<Rightarrow> SpikePair list" where
  "stored (Leaf cap bd ps) = ps"
| "stored (Node cap bd ps nw sw ne se) = ps @ stored nw @ stored sw @ stored ne @ stored se"

section \<open>Spike raster\<close>

text \<open>
  The raster keeps one list of spikes per neuron. \<open>RasterInit\<close> and \<open>PhysNetworkInit\<close>
  allocate their arrays of list heads with \<open>malloc\<close> and do not clear them; the model
  starts from empty lists. The two input files are taken as the sequences of their parsed
  lines.
\<close>

record SpikeRaster =
  n_cells :: nat
  sp_lists :: "Spike list list"
  t_min :: int
  t_max :: int
  n_spikes :: nat

definition RasterInit :: "nat \<Rightarrow> SpikeRaster" where
  "RasterInit cells =
     \<lparr>n_cells = cells, sp_lists = replicate cells [], t_min = 0, t_max = 0, n_spikes = 0\<rparr>"

definition RasterHeadAppend :: "SpikeRaster \<Rightarrow> Spike \<Rightarrow> error + SpikeRaster" where
  "RasterHeadAppend sr sp =
     (if n_id sp \<ge> n_cells sr then Inl Fatal
      else
        (let sr1 = sr\<lparr>sp_lists := (sp_lists sr)[n_id sp := sp # (sp_lists sr ! n_id sp)]\<rparr>;
             sr2 = (if n_spikes sr1 = 0 then sr1\<lparr>t_min := ts sp, t_max := ts sp\<rparr>
                    else (let min_diff = c_long (ts sp - t_min sr1);
                              max_diff = c_long (ts sp - t_max sr1)
                          in sr1\<lparr>t_min := c_long (t_min sr1 + (if min_diff > 0 then 0 else min_diff)),
                                 t_max := c_long (t_max sr1 + (if max_diff < 0 then 0 else max_diff))\<rparr>))
         in Inr (sr2\<lparr>n_spikes := n_spikes sr2 + 1\<rparr>)))"

fun SpikeListReverse_loop :: "Spike list \<Rightarrow> Spike list \<Rightarrow> Spike list" where
  "SpikeListReverse_loop prev [] = prev"
| "SpikeListReverse_loop prev (cur # nxt) = SpikeListReverse_loop (cur # prev) nxt"

definition SpikeListReverse :: "Spike list \<Rightarrow> Spike list" where
  "SpikeListReverse list_head = SpikeListReverse_loop [] list_head"

definition RasterReverse :: "SpikeRaster \<Rightarrow> SpikeRaster" where
  "RasterReverse sr = sr\<lparr>sp_lists := map SpikeListReverse (sp_lists sr)\<rparr>"

text \<open>A line of the spike file, parsed: type, timestamp, neuron id.\<close>

type_synonym spike_line = "int \<times> int \<times> nat"

fun RasterReadFile_loop :: "SpikeRaster \<Rightarrow> spike_line list \<Rightarrow> error + SpikeRaster" where
  "RasterReadFile_loop sr [] = Inr sr"
| "RasterReadFile_loop sr ((sp_type, t, n) # rest) =
     (case RasterHeadAppend sr (create_spike n t) of
        Inl e \<Rightarrow> Inl e
      | Inr sr' \<Rightarrow> RasterReadFile_loop sr' rest)"

definition RasterReadFile :: "SpikeRaster \<Rightarrow> spike_line list \<Rightarrow> error + SpikeRaster" where
  "RasterReadFile sr file_lines =
     (case RasterReadFile_loop sr file_lines of
        Inl e \<Rightarrow> Inl e
      | Inr sr' \<Rightarrow> Inr (RasterReverse sr'))"

section \<open>Network\<close>

record PhysNetwork =
  net_n_cells :: nat
  presyns :: "Synapse list list"

definition PhysNetworkInit :: "nat \<Rightarrow> PhysNetwork" where
  "PhysNetworkInit cells = \<lparr>net_n_cells = cells, presyns = replicate cells []\<rparr>"

definition PhysNetworkAddSynapse :: "PhysNetwork \<Rightarrow> Synapse \<Rightarrow> error + PhysNetwork" where
  "PhysNetworkAddSynapse pn edg =
     (if tgt_id edg \<ge> net_n_cells pn then Inl Fatal
      else Inr (pn\<lparr>presyns := (presyns pn)[tgt_id edg := edg # (presyns pn ! tgt_id edg)]\<rparr>))"

text \<open>
  \<open>-1*log(_rel_w)\<close> is computed in \<open>double\<close> and stored in a \<open>float\<close>. The \<open>log\<close> of the C
  library is modelled by the real logarithm, rounded once to binary32; \<open>log(0)\<close> is \<open>-inf\<close>
  and the logarithm of a negative number is a NaN. The model is exact at the weight 1,
  where the logarithm is 0; at other weights the C library may differ from it in the last
  place. The statements below that go through \<open>SynapseCreate\<close> use the weight 1 only.
\<close>

definition c_neg_log :: "float \<Rightarrow> float" where
  "c_neg_log w =
     (case w of
        Finite x \<Rightarrow> (if 0 < x then round32 (- ln x) else if x = 0 then PosInf else NaN)
      | PosInf \<Rightarrow> NegInf
      | NegInf \<Rightarrow> NaN
      | NaN \<Rightarrow> NaN)"

definition SynapseCreate :: "nat \<Rightarrow> nat \<Rightarrow> float \<Rightarrow> float \<Rightarrow> Synapse" where
  "SynapseCreate src tgt w dl =
     \<lparr>src_id = src, tgt_id = tgt, rel_w = w, neg_log_rel_w = c_neg_log w, delay = dl\<rparr>"

type_synonym synapse_line = "nat \<times> nat \<times> float \<times> float"

fun PhysNetworkReadFile :: "PhysNetwork \<Rightarrow> synapse_line list \<Rightarrow> error + PhysNetwork" where
  "PhysNetworkReadFile pn [] = Inr pn"
| "PhysNetworkReadFile pn ((src, tgt, w, dl) # rest) =
     (case PhysNetworkAddSynapse pn (SynapseCreate src tgt w dl) of
        Inl e \<Rightarrow> Inl e
      | Inr pn' \<Rightarrow> PhysNetworkReadFile pn' rest)"

section \<open>Edge buffer\<close>

record GNATEdge =
  spp_pre :: SpikePair
  spp_post :: SpikePair
  cd_ratio :: float

type_synonym edge_line = "nat \<times> int \<times> int \<times> nat \<times> int \<times> int"

record EdgeBuffer =
  g_edgbuf :: "GNATEdge list"
  fp_edgbuf :: "edge_line list"

definition N_EDGBUF :: nat where
  "N_EDGBUF = 8192"

definition fprint_GNAT_edge :: "GNATEdge \<Rightarrow> edge_line" where
  "fprint_GNAT_edge edg =
     (n_id (sp1 (spp_pre edg)), ts (sp1 (spp_pre edg)), ts (sp2 (spp_pre edg)),
      n_id (sp1 (spp_post edg)), ts (sp1 (spp_post edg)), ts (sp2 (spp_post edg)))"

definition initialize_edge_buffer :: EdgeBuffer where
  "initialize_edge_buffer = \<lparr>g_edgbuf = [], fp_edgbuf = []\<rparr>"

definition flush_edge_buffer :: "EdgeBuffer \<Rightarrow> EdgeBuffer" where
  "flush_edge_buffer eb =
     \<lparr>g_edgbuf = [], fp_edgbuf = fp_edgbuf eb @ map fprint_GNAT_edge (g_edgbuf eb)\<rparr>"

definition finalize_edge_buffer :: "EdgeBuffer \<Rightarrow> edge_line list" where
  "finalize_edge_buffer eb = fp_edgbuf (flush_edge_buffer eb)"

definition GNAT_add_edge :: "SpikePair \<Rightarrow> SpikePair \<Rightarrow> float \<Rightarrow> EdgeBuffer \<Rightarrow> EdgeBuffer" where
  "GNAT_add_edge pre post ratio eb =
     (let eb1 = (if length (g_edgbuf eb) \<ge> N_EDGBUF then flush_edge_buffer eb else eb)
      in eb1\<lparr>g_edgbuf := g_edgbuf eb1 @ [\<lparr>spp_pre = pre, spp_post = post, cd_ratio = ratio\<rparr>]\<rparr>)"

section \<open>Orchestrator\<close>

definition GNAT_visit ::
    "SpikePair \<Rightarrow> Synapse \<Rightarrow> float \<Rightarrow> float \<Rightarrow> SpikePair \<Rightarrow> EdgeBuffer \<Rightarrow> EdgeBuffer" where
  "GNAT_visit post syn tau theta pre eb =
     (if GNAT_test_for_edge pre post syn tau theta then GNAT_add_edge pre post (float_of_int 1) eb else eb)"

fun QTreeMapGNATEdge ::
    "QuadTree \<Rightarrow> BoundingBox \<Rightarrow> SpikePair \<Rightarrow> Synapse \<Rightarrow> float \<Rightarrow> float \<Rightarrow> EdgeBuffer \<Rightarrow> EdgeBuffer" where
  "QTreeMapGNATEdge (Leaf cap bd ps) r post syn tau theta eb =
     (if \<not> BBoxIntersects bd r then eb else fold (GNAT_visit post syn tau theta) ps eb)"
| "QTreeMapGNATEdge (Node cap bd ps nw sw ne se) r post syn tau theta eb =
     (if \<not> BBoxIntersects bd r then eb
      else QTreeMapGNATEdge se r post syn tau theta
             (QTreeMapGNATEdge ne r post syn tau theta
               (QTreeMapGNATEdge sw r post syn tau theta
                 (QTreeMapGNATEdge nw r post syn tau theta
                   (fold (GNAT_visit post syn tau theta) ps eb)))))"

fun presyn_loop ::
    "QuadTree list \<Rightarrow> SpikePair \<Rightarrow> float \<Rightarrow> float \<Rightarrow> float \<Rightarrow> Synapse list \<Rightarrow> EdgeBuffer \<Rightarrow> error + EdgeBuffer" where
  "presyn_loop qtarray post tau thresh c_radius [] eb = Inr eb"
| "presyn_loop qtarray post tau thresh c_radius (presyn # rest) eb =
     (if src_id presyn \<ge> length qtarray then Inl OutOfBounds
      else
        (let presyn_qtree = qtarray ! src_id presyn;
             query_bbox = \<lparr>c_x = float_of_int (ts (sp1 post)), c_y = float_of_int (ts (sp2 post)),
                            w2 = c_radius\<rparr>
         in presyn_loop qtarray post tau thresh c_radius rest
              (QTreeMapGNATEdge presyn_qtree query_bbox post presyn tau thresh eb)))"

fun sp_b_loop ::
    "QuadTree list \<Rightarrow> Synapse list \<Rightarrow> float \<Rightarrow> float \<Rightarrow> float \<Rightarrow> Spike \<Rightarrow> Spike list \<Rightarrow> EdgeBuffer \<Rightarrow> error + EdgeBuffer" where
  "sp_b_loop qtarray syns tau thresh c_radius sp_a [] eb = Inr eb"
| "sp_b_loop qtarray syns tau thresh c_radius sp_a (sp_b # rest) eb =
     (if \<not> spike_equals sp_a sp_b then
        (case presyn_loop qtarray (create_spike_pair sp_a sp_b) tau thresh c_radius syns eb of
           Inl e \<Rightarrow> Inl e
         | Inr eb' \<Rightarrow> sp_b_loop qtarray syns tau thresh c_radius sp_a rest eb')
      else sp_b_loop qtarray syns tau thresh c_radius sp_a rest eb)"

fun sp_a_loop ::
    "QuadTree list \<Rightarrow> Synapse list \<Rightarrow> float \<Rightarrow> float \<Rightarrow> float \<Rightarrow> Spike list \<Rightarrow> EdgeBuffer \<Rightarrow> error + EdgeBuffer" where
  "sp_a_loop qtarray syns tau thresh c_radius [] eb = Inr eb"
| "sp_a_loop qtarray syns tau thresh c_radius (sp_a # rest) eb =
     (case sp_b_loop qtarray syns tau thresh c_radius sp_a rest eb of
        Inl e \<Rightarrow> Inl e
      | Inr eb' \<Rightarrow> sp_a_loop qtarray syns tau thresh c_radius rest eb')"

fun post_idx_loop ::
    "SpikeRaster \<Rightarrow> PhysNetwork \<Rightarrow> QuadTree list \<Rightarrow> float \<Rightarrow> float \<Rightarrow> float \<Rightarrow> nat list \<Rightarrow> EdgeBuffer \<Rightarrow> error + EdgeBuffer" where
  "post_idx_loop g_raster g_network qtarray tau thresh c_radius [] eb = Inr eb"
| "post_idx_loop g_raster g_network qtarray tau thresh c_radius (post_idx # rest) eb =
     (if post_idx \<ge> length (sp_lists g_raster) \<or> post_idx \<ge> length (presyns g_network)
      then Inl OutOfBounds
      else
        (case sp_a_loop qtarray (presyns g_network ! post_idx) tau thresh c_radius
                (sp_lists g_raster ! post_idx) eb of
           Inl e \<Rightarrow> Inl e
         | Inr eb' \<Rightarrow> post_idx_loop g_raster g_network qtarray tau thresh c_radius rest eb'))"

definition compute_gnat_edges ::
    "SpikeRaster \<Rightarrow> PhysNetwork \<Rightarrow> QuadTree list \<Rightarrow> float \<Rightarrow> float \<Rightarrow> float \<Rightarrow> EdgeBuffer \<Rightarrow> error + EdgeBuffer" where
  "compute_gnat_edges g_raster g_network qtarray tau thresh c_radius eb =
     post_idx_loop g_raster g_network qtarray tau thresh c_radius [0 ..< net_n_cells g_network] eb"

fun insert_spike_pairs_inner :: "nat \<Rightarrow> QuadTree \<Rightarrow> Spike \<Rightarrow> Spike list \<Rightarrow> error + QuadTree" where
  "insert_spike_pairs_inner fuel qt sp_a [] = Inr qt"
| "insert_spike_pairs_inner fuel qt sp_a (sp_b # rest) =
     (if \<not> spike_equals sp_a sp_b then
        (case QTreeInsert fuel qt (create_spike_pair sp_a sp_b) of
           Inl e \<Rightarrow> Inl e
         | Inr (qt', _) \<Rightarrow> insert_spike_pairs_inner fuel qt' sp_a rest)
      else insert_spike_pairs_inner fuel qt sp_a rest)"

fun insert_spike_pairs :: "nat \<Rightarrow> QuadTree \<Rightarrow> Spike list \<Rightarrow> error + QuadTree" where
  "insert_spike_pairs fuel qt [] = Inr qt"
| "insert_spike_pairs fuel qt (sp_a # rest) =
     (case insert_spike_pairs_inner fuel qt sp_a rest of
        Inl e \<Rightarrow> Inl e
      | Inr qt' \<Rightarrow> insert_spike_pairs fuel qt' rest)"

fun build_qtarray :: "nat \<Rightarrow> BoundingBox \<Rightarrow> Spike list list \<Rightarrow> error + QuadTree list" where
  "build_qtarray fuel bbox [] = Inr []"
| "build_qtarray fuel bbox (l # ls) =
     (case insert_spike_pairs fuel (QTreeCreate bbox) l of
        Inl e \<Rightarrow> Inl e
      | Inr qt \<Rightarrow>
          (case build_qtarray fuel bbox ls of
             Inl e \<Rightarrow> Inl e
           | Inr qts \<Rightarrow> Inr (qt # qts)))"

definition gnatfinder_main ::
    "nat \<Rightarrow> nat \<Rightarrow> spike_line list \<Rightarrow> synapse_line list \<Rightarrow> float \<Rightarrow> float \<Rightarrow> float \<Rightarrow> error + edge_line list" where
  "gnatfinder_main fuel cells spike_file network_file tau thresh c_radius =
     (case RasterReadFile (RasterInit cells) spike_file of
        Inl e \<Rightarrow> Inl e
      | Inr g_raster \<Rightarrow>
     (case PhysNetworkReadFile (PhysNetworkInit cells) network_file of
        Inl e \<Rightarrow> Inl e
      | Inr g_network \<Rightarrow>
     (let cx = float_div (float_of_int (c_long (t_max g_raster + t_min g_raster))) (float_of_int 2);
          cy = cx;
          hw = float_div (float_of_int (c_long (t_max g_raster - t_min g_raster))) (float_of_int 2);
          bbox_top_level = BBoxCreate cx cy hw
      in (case build_qtarray fuel bbox_top_level (sp_lists g_raster) of
            Inl e \<Rightarrow> Inl e
          | Inr g_qtarray \<Rightarrow>
         (case compute_gnat_edges g_raster g_network g_qtarray tau thresh c_radius
                 initialize_edge_buffer of
            Inl e \<Rightarrow> Inl e
          | Inr eb \<Rightarrow> Inr (finalize_edge_buffer eb))))))"


section \<open>Concrete inputs and the containment of the specification\<close>

text \<open>
  \<open>spec_contains\<close> is the strict containment as the specification words it, on the true
  distances: \<open>\<bar>x - c_x\<bar> < w2\<close> and \<open>\<bar>y - c_y\<bar> < w2\<close>. It is used to state that an input
  meets the specification's precondition; the code's test is \<open>BBoxContainsPoint\<close>.
\<close>

definition spec_contains :: "BoundingBox \<Rightarrow> SpikePair \<Rightarrow> bool" where
  "spec_contains bb spp =
     (case (c_x bb, c_y bb, w2 bb) of
        (Finite cx, Finite cy, Finite w) \<Rightarrow>
          \<bar>real_of_int (ts (sp1 spp)) - cx\<bar> < w \<and> \<bar>real_of_int (ts (sp2 spp)) - cy\<bar> < w
      | _ \<Rightarrow> False)"

text \<open>The box with centre \<open>(x, y)\<close> and half-width \<open>w\<close>, all finite.\<close>

definition box :: "real \<Rightarrow> real \<Rightarrow> real \<Rightarrow> BoundingBox" where
  "box x y w = BBoxCreate (Finite x) (Finite y) (Finite w)"

text \<open>
  A root box of half-width 8 around the origin, four pairs on its vertical splitting line
  \<open>x = 0\<close>, and the tree after that box was subdivided with \<open>ps\<close> in its NE child.
\<close>

definition root8 :: BoundingBox where
  "root8 = box 0 0 8"

definition on_split_line :: "SpikePair list" where
  "on_split_line = [mk_pair 0 0 1, mk_pair 0 0 2, mk_pair 0 0 3, mk_pair 0 0 4]"

definition split_node :: "SpikePair list \<Rightarrow> QuadTree" where
  "split_node ps = Node 0 root8 []
     (Leaf 0 (box (- 4) 4 4) []) (Leaf 0 (box (- 4) (- 4) 4) [])
     (Leaf (int (length ps)) (box 4 4 4) ps) (Leaf 0 (box 4 (- 4) 4) [])"

text \<open>A root box and a query region with fractional centres.\<close>

definition fractional_root :: BoundingBox where
  "fractional_root = box (- 7 / 8) (- 7 / 8) (1 / 2)"

definition fractional_query :: BoundingBox where
  "fractional_query = box (1 / 4) (1 / 4) (3 / 8)"

text \<open>
  Scenario D of the specification: the spike file, sorted by time, and the network file.
  \<open>n_edges\<close> is the number of lines written by a run that ends.
\<close>

definition scenario_D_spikes :: "spike_line list" where
  "scenario_D_spikes = [(0, 10, 0), (0, 11, 1), (0, 20, 0), (0, 21, 1), (0, 30, 0), (0, 31, 1)]"

definition scenario_D_network :: "synapse_line list" where
  "scenario_D_network = [(0, 1, Finite 1, Finite 1)]"

definition n_edges :: "error + edge_line list \<Rightarrow> nat option" where
  "n_edges r = (case r of Inl e \<Rightarrow> None | Inr es \<Rightarrow> Some (length es))"

text \<open>\<open>exact32 x\<close>: the real \<open>x\<close> is a binary32 number, so that rounding leaves it as it is.\<close>

definition exact32 :: "real \<Rightarrow> bool" where
  "exact32 x = (round32 x = Finite x)"

text \<open>
  Five pairs whose timestamps are beyond the range of an \<open>int\<close>. The timestamps are
  multiples of 256 and binary32 numbers, so the five points are distinct as the code sees
  them too.
\<close>

definition far_pairs :: "SpikePair list" where
  "far_pairs = [mk_pair 0 3000000000 3000000000, mk_pair 0 3000000256 3000000000,
     mk_pair 0 3000000512 3000000000, mk_pair 0 3000000768 3000000000,
     mk_pair 0 3000001024 3000000000]"

text \<open>
  The boxes that the north-west descent from the root of half-width 8 stays in: at a
  centre of magnitude \<open>2 ^ 27\<close> a binary32 number absorbs an offset of at most 4.
\<close>

definition small_box :: "BoundingBox \<Rightarrow> bool" where
  "small_box b =
     (case (c_x b, c_y b, w2 b) of
        (Finite cx, Finite cy, Finite w) \<Rightarrow>
          \<bar>cx\<bar> \<le> 134217728 \<and> \<bar>cy\<bar> \<le> 134217728 \<and> 0 \<le> w \<and> w \<le> 8
      | _ \<Rightarrow> False)"

section \<open>Binary32 rounding\<close>

text \<open>
  The unit in the last place is characterised by its two bounds, and a number that is an
  integer below \<open>2 ^ 24\<close> in magnitude times a power of two in range is its own binary32
  value.
\<close>

lemma ulp_exp_from_eq:
  "q \<le> q0 \<Longrightarrow> q0 \<le> 104 \<Longrightarrow> \<bar>x\<bar> < 2 powi (q0 + 24) \<Longrightarrow> (q < q0 \<Longrightarrow> 2 powi (q0 + 23) \<le> \<bar>x\<bar>)
   \<Longrightarrow> ulp_exp_from x q = q0"
proof (induction "nat (q0 - q)" arbitrary: q)
  case 0
  then have "q = q0" by simp
  then show ?case using 0 by (subst ulp_exp_from.simps) simp
next
  case (Suc n)
  then have lt: "q < q0" by linarith
  then have "(2::real) powi (q + 24) \<le> 2 powi (q0 + 23)"
    by (intro power_int_increasing) simp_all
  with Suc.prems(4) [OF lt] have ge: "2 powi (q + 24) \<le> \<bar>x\<bar>" by linarith
  have "ulp_exp_from x (q + 1) = q0"
  proof (rule Suc.hyps(1))
    show "n = nat (q0 - (q + 1))" using Suc.hyps(2) by linarith
    show "q + 1 \<le> q0" using lt by simp
    show "q0 \<le> 104" by fact
    show "\<bar>x\<bar> < 2 powi (q0 + 24)" by fact
    show "2 powi (q0 + 23) \<le> \<bar>x\<bar>" using Suc.prems(4) [OF lt] .
  qed
  moreover have "\<not> (105 \<le> q \<or> \<bar>x\<bar> < 2 powi (q + 24))" using lt Suc.prems(2) ge by simp
  ultimately show ?case by (subst ulp_exp_from.simps) simp
qed

lemma ulp_exp_eq:
  "- 149 \<le> q0 \<Longrightarrow> q0 \<le> 104 \<Longrightarrow> \<bar>x\<bar> < 2 powi (q0 + 24) \<Longrightarrow>
   (- 149 < q0 \<Longrightarrow> 2 powi (q0 + 23) \<le> \<bar>x\<bar>) \<Longrightarrow> ulp_exp x = q0"
  unfolding ulp_exp_def by (rule ulp_exp_from_eq)

lemma ulp_exp_from_props:
  "q \<le> 105 \<Longrightarrow>
   q \<le> ulp_exp_from x q \<and> ulp_exp_from x q \<le> 105 \<and>
   (ulp_exp_from x q = 105 \<or> \<bar>x\<bar> < 2 powi (ulp_exp_from x q + 24)) \<and>
   (\<forall>q'. q \<le> q' \<and> q' < ulp_exp_from x q \<longrightarrow> 2 powi (q' + 24) \<le> \<bar>x\<bar>)"
proof (induction x q rule: ulp_exp_from.induct)
  case (1 x q)
  show ?case
  proof (cases "105 \<le> q \<or> \<bar>x\<bar> < 2 powi (q + 24)")
    case True
    then have e: "ulp_exp_from x q = q" by (subst ulp_exp_from.simps) simp
    show ?thesis unfolding e using True 1(2) by auto
  next
    case False
    then have e: "ulp_exp_from x q = ulp_exp_from x (q + 1)" by (subst ulp_exp_from.simps) simp
    have q1: "q + 1 \<le> 105" using False by simp
    note ih = 1(1) [OF False q1]
    show ?thesis
      unfolding e
    proof (intro conjI allI impI)
      show "q \<le> ulp_exp_from x (q + 1)" using ih by linarith
      show "ulp_exp_from x (q + 1) \<le> 105" using ih by simp
      show "ulp_exp_from x (q + 1) = 105 \<or> \<bar>x\<bar> < 2 powi (ulp_exp_from x (q + 1) + 24)"
        using ih by simp
      fix q' assume a: "q \<le> q' \<and> q' < ulp_exp_from x (q + 1)"
      show "2 powi (q' + 24) \<le> \<bar>x\<bar>"
      proof (cases "q' = q")
        case True
        then show ?thesis using False by simp
      next
        case False
        then have "q + 1 \<le> q' \<and> q' < ulp_exp_from x (q + 1)" using a by simp
        then show ?thesis using ih by blast
      qed
    qed
  qed
qed

lemma ulp_exp_ge: "- 149 \<le> ulp_exp x"
  and ulp_exp_le: "ulp_exp x \<le> 105"
  and ulp_exp_bound: "ulp_exp x = 105 \<or> \<bar>x\<bar> < 2 powi (ulp_exp x + 24)"
  and ulp_exp_least: "- 149 \<le> q' \<Longrightarrow> q' < ulp_exp x \<Longrightarrow> 2 powi (q' + 24) \<le> \<bar>x\<bar>"
  using ulp_exp_from_props [of "- 149" x] unfolding ulp_exp_def by simp_all

lemma round_even_of_int [simp]: "round_even (real_of_int k) = k"
  by (simp add: round_even_def)

lemma round32_exact:
  assumes x: "x = real_of_int m * 2 powi q0" and m: "\<bar>m\<bar> < 2 ^ 24"
    and q0: "- 149 \<le> q0" "q0 \<le> 104"
  shows "round32 x = Finite x"
proof -
  let ?q = "ulp_exp x"
  have lt: "\<bar>x\<bar> < 2 powi (q0 + 24)"
  proof -
    have "\<bar>x\<bar> = real_of_int \<bar>m\<bar> * 2 powi q0" unfolding x by (simp add: abs_mult)
    also have "\<dots> < 2 ^ 24 * 2 powi q0"
    proof (rule mult_strict_right_mono)
      have "real_of_int \<bar>m\<bar> < real_of_int (2 ^ 24)" using m by (simp only: of_int_less_iff)
      then show "real_of_int \<bar>m\<bar> < 2 ^ 24" by simp
    qed simp
    also have "\<dots> = 2 powi (q0 + 24)" by (simp add: power_int_add)
    finally show ?thesis .
  qed
  have le: "?q \<le> q0"
  proof (rule ccontr)
    assume "\<not> ?q \<le> q0"
    then have "q0 < ?q" by simp
    from ulp_exp_least [OF q0(1) this] lt show False by simp
  qed
  obtain n where n: "q0 - ?q = int n" using le by (metis zero_le_imp_eq_int diff_ge_0_iff_ge)
  have "x / 2 powi ?q = real_of_int m * 2 powi (q0 - ?q)"
    unfolding x by (simp add: power_int_diff)
  also have "\<dots> = real_of_int (m * 2 ^ n)" unfolding n by simp
  finally have d: "x / 2 powi ?q = real_of_int (m * 2 ^ n)" .
  have r: "real_of_int (round_even (x / 2 powi ?q)) * 2 powi ?q = x"
  proof -
    have "real_of_int (round_even (x / 2 powi ?q)) = x / 2 powi ?q"
      unfolding d by (simp only: round_even_of_int)
    then show ?thesis by simp
  qed
  have "(2::real) powi (q0 + 24) \<le> 2 powi 128"
    using q0 by (intro power_int_increasing) simp_all
  then have "\<bar>x\<bar> < 2 ^ 128" using lt by simp
  then show ?thesis unfolding round32_def Let_def r by simp
qed

lemma round32_0 [simp]: "round32 0 = Finite 0"
  using round32_exact [of 0 0 0] by simp

lemma round32_of_int: "\<bar>n\<bar> < 16777216 \<Longrightarrow> round32 (real_of_int n) = Finite (real_of_int n)"
  using round32_exact [of "real_of_int n" n 0] by simp

lemma round32_dyadic:
  "\<bar>n\<bar> < 16777216 \<Longrightarrow> k \<le> 149 \<Longrightarrow>
   round32 (real_of_int n / 2 ^ k) = Finite (real_of_int n / 2 ^ k)"
  using round32_exact [of "real_of_int n / 2 ^ k" n "- int k"]
  by (simp add: power_int_minus divide_inverse)

lemma round32_numeral:
  "numeral k < (16777216::int) \<Longrightarrow> round32 (numeral k) = Finite (numeral k)"
  using round32_of_int [of "numeral k"] by simp

lemma round32_neg_numeral:
  "numeral k < (16777216::int) \<Longrightarrow> round32 (- numeral k) = Finite (- numeral k)"
  using round32_of_int [of "- numeral k"] by simp

lemma round32_1: "round32 1 = Finite 1"
  using round32_of_int [of 1] by simp

lemma round32_neg_1: "round32 (- 1) = Finite (- 1)"
  using round32_of_int [of "- 1"] by simp

lemma round32_numeral_div_2:
  "numeral k < (16777216::int) \<Longrightarrow> round32 (numeral k / 2) = Finite (numeral k / 2)"
  using round32_dyadic [of "numeral k" 1] by simp

lemma round32_neg_numeral_div_2:
  "numeral k < (16777216::int) \<Longrightarrow> round32 (- (numeral k / 2)) = Finite (- (numeral k / 2))"
  using round32_dyadic [of "- numeral k" 1] by simp

lemma round32_1_div_2: "round32 (1 / 2) = Finite (1 / 2)"
  using round32_dyadic [of 1 1] by simp

lemma round32_neg_1_div_2: "round32 (- (1 / 2)) = Finite (- (1 / 2))"
  using round32_dyadic [of "- 1" 1] by simp

lemma round32_numeral_div_4:
  "numeral k < (16777216::int) \<Longrightarrow> round32 (numeral k / 4) = Finite (numeral k / 4)"
  using round32_dyadic [of "numeral k" 2] by simp

lemma round32_neg_numeral_div_4:
  "numeral k < (16777216::int) \<Longrightarrow> round32 (- (numeral k / 4)) = Finite (- (numeral k / 4))"
  using round32_dyadic [of "- numeral k" 2] by simp

lemma round32_1_div_4: "round32 (1 / 4) = Finite (1 / 4)"
  using round32_dyadic [of 1 2] by simp

lemma round32_neg_1_div_4: "round32 (- (1 / 4)) = Finite (- (1 / 4))"
  using round32_dyadic [of "- 1" 2] by simp

lemma round32_numeral_div_8:
  "numeral k < (16777216::int) \<Longrightarrow> round32 (numeral k / 8) = Finite (numeral k / 8)"
  using round32_dyadic [of "numeral k" 3] by simp

lemma round32_neg_numeral_div_8:
  "numeral k < (16777216::int) \<Longrightarrow> round32 (- (numeral k / 8)) = Finite (- (numeral k / 8))"
  using round32_dyadic [of "- numeral k" 3] by simp

lemma round32_1_div_8: "round32 (1 / 8) = Finite (1 / 8)"
  using round32_dyadic [of 1 3] by simp

lemma round32_neg_1_div_8: "round32 (- (1 / 8)) = Finite (- (1 / 8))"
  using round32_dyadic [of "- 1" 3] by simp

lemmas round32_exact_numerals = round32_0 round32_1 round32_neg_1 round32_numeral
  round32_neg_numeral round32_numeral_div_2 round32_neg_numeral_div_2 round32_1_div_2
  round32_neg_1_div_2 round32_numeral_div_4 round32_neg_numeral_div_4 round32_1_div_4
  round32_neg_1_div_4 round32_numeral_div_8 round32_neg_numeral_div_8 round32_1_div_8
  round32_neg_1_div_8

lemmas float_eval = round32_exact_numerals float_of_int_def float_sub_def float_ge_def
  c_int_of_float_def c_abs_def c_long_def INT_MIN_def INT_MAX_def


text \<open>
  A \<open>long\<close> above \<open>2 ^ 24\<close> need not be a binary32 number: it is rounded to a multiple of
  the unit in the last place, a tie to the even multiple.
\<close>

lemma round32_16777217: "round32 16777217 = Finite 16777216"
proof -
  have q: "ulp_exp 16777217 = 1" by (rule ulp_exp_eq) simp_all
  have "\<lfloor>16777217 / 2 :: real\<rfloor> = 8388608" by simp
  then have r: "round_even (16777217 / 2 powi 1) = 8388608"
    by (simp add: round_even_def Let_def)
  show ?thesis unfolding round32_def Let_def q r by simp
qed

lemma round32_16777219: "round32 16777219 = Finite 16777220"
proof -
  have q: "ulp_exp 16777219 = 1" by (rule ulp_exp_eq) simp_all
  have "\<lfloor>16777219 / 2 :: real\<rfloor> = 8388609" by simp
  then have r: "round_even (16777219 / 2 powi 1) = 8388610"
    by (simp add: round_even_def Let_def)
  show ?thesis unfolding round32_def Let_def q r by simp
qed

text \<open>
  Rounding to the nearest integer is off by at most a half, so rounding to binary32 keeps a
  number within bounds that are binary32 numbers themselves.
\<close>

lemma round_even_near: "\<bar>real_of_int (round_even y) - y\<bar> \<le> 1 / 2"
proof -
  have "real_of_int \<lfloor>y\<rfloor> \<le> y" "y < real_of_int \<lfloor>y\<rfloor> + 1" by linarith+
  then show ?thesis unfolding round_even_def Let_def by (auto split: if_splits)
qed

lemma round_even_le: "y \<le> real_of_int N \<Longrightarrow> round_even y \<le> N"
  using round_even_near [of y] by linarith

lemma round_even_ge: "real_of_int N \<le> y \<Longrightarrow> N \<le> round_even y"
  using round_even_near [of y] by linarith

lemma round_even_unique: "\<bar>y - real_of_int N\<bar> < 1 / 2 \<Longrightarrow> round_even y = N"
  using round_even_near [of y] by linarith

lemma ulp_exp_le_of_lt:
  assumes "\<bar>x\<bar> < 2 powi (q0 + 24)" "- 149 \<le> q0"
  shows "ulp_exp x \<le> q0"
proof (rule ccontr)
  assume "\<not> ulp_exp x \<le> q0"
  then have "q0 < ulp_exp x" by simp
  from ulp_exp_least [OF assms(2) this] assms(1) show False by simp
qed

lemma round32_abs_le:
  assumes x: "\<bar>x\<bar> \<le> 2 powi e" and e: "- 149 \<le> e" "e \<le> 127"
  shows "\<exists>r. round32 x = Finite r \<and> \<bar>r\<bar> \<le> 2 powi e \<and> (0 \<le> x \<longrightarrow> 0 \<le> r)"
proof -
  let ?q = "ulp_exp x"
  let ?y = "x / 2 powi ?q"
  let ?r = "real_of_int (round_even ?y) * 2 powi ?q"
  have "(2::real) powi e < 2 powi (e + 24)" by (rule power_int_strict_increasing) simp_all
  with x have "\<bar>x\<bar> < 2 powi (e + 24)" by linarith
  then have qe: "?q \<le> e" using e(1) by (rule ulp_exp_le_of_lt)
  then obtain n where n: "e - ?q = int n" by (metis zero_le_imp_eq_int diff_ge_0_iff_ge)
  have p: "(0::real) < 2 powi ?q" by simp
  have N: "(2::real) powi e / 2 powi ?q = real_of_int (2 ^ n)"
  proof -
    have "(2::real) powi e / 2 powi ?q = 2 powi (e - ?q)" by (simp add: power_int_diff)
    then show ?thesis unfolding n by simp
  qed
  have "\<bar>?y\<bar> = \<bar>x\<bar> / 2 powi ?q" by simp
  also have "\<dots> \<le> 2 powi e / 2 powi ?q" using x p by (simp add: divide_right_mono)
  finally have y: "\<bar>?y\<bar> \<le> real_of_int (2 ^ n)" unfolding N .
  have up: "round_even ?y \<le> 2 ^ n" by (rule round_even_le) (use y in linarith)
  have "- real_of_int (2 ^ n) \<le> ?y" using y by linarith
  then have "real_of_int (- (2 ^ n)) \<le> ?y" by (simp only: of_int_minus)
  then have lo: "- (2 ^ n) \<le> round_even ?y" by (rule round_even_ge)
  have "\<bar>round_even ?y\<bar> \<le> 2 ^ n" using up lo by linarith
  then have "real_of_int \<bar>round_even ?y\<bar> \<le> real_of_int (2 ^ n)" by (simp only: of_int_le_iff)
  then have "\<bar>real_of_int (round_even ?y)\<bar> \<le> 2 powi e / 2 powi ?q" unfolding N by simp
  then have "\<bar>real_of_int (round_even ?y)\<bar> * 2 powi ?q \<le> 2 powi e"
    using p by (simp add: pos_le_divide_eq)
  then have r: "\<bar>?r\<bar> \<le> 2 powi e" by (simp add: abs_mult)
  have "(2::real) powi e \<le> 2 powi 127" using e(2) by (intro power_int_increasing) simp_all
  also have "\<dots> < 2 ^ 128" by simp
  finally have f: "\<bar>?r\<bar> < 2 ^ 128" using r by linarith
  have s: "0 \<le> ?r" if "0 \<le> x"
  proof -
    have "real_of_int 0 \<le> ?y" using that by simp
    then have "0 \<le> round_even ?y" by (rule round_even_ge)
    then show ?thesis by simp
  qed
  have "round32 x = Finite ?r" unfolding round32_def Let_def using f by simp
  then show ?thesis using r s by blast
qed

lemma round32_absorb:
  assumes "134217728 < \<bar>x\<bar>" "\<bar>x\<bar> \<le> 134217732"
  shows "\<exists>r. round32 x = Finite r \<and> \<bar>r\<bar> \<le> 134217728"
proof -
  have q: "ulp_exp x = 4" using assms by (intro ulp_exp_eq) simp_all
  show ?thesis
  proof (cases "0 \<le> x")
    case True
    have "round_even (x / 2 powi 4) = 8388608"
      by (rule round_even_unique) (use assms True in simp)
    then have "round32 x = Finite 134217728" unfolding round32_def Let_def q by simp
    then show ?thesis by simp
  next
    case False
    have "round_even (x / 2 powi 4) = - 8388608"
      by (rule round_even_unique) (use assms False in simp)
    then have "round32 x = Finite (- 134217728)" unfolding round32_def Let_def q by simp
    then show ?thesis by simp
  qed
qed

lemma round32_centre:
  assumes "\<bar>x\<bar> \<le> 134217732"
  shows "\<exists>r. round32 x = Finite r \<and> \<bar>r\<bar> \<le> 134217728"
proof (cases "\<bar>x\<bar> \<le> 134217728")
  case True
  then have "\<bar>x\<bar> \<le> 2 powi 27" by simp
  from round32_abs_le [OF this] show ?thesis by auto
next
  case False
  then show ?thesis using assms by (intro round32_absorb) simp_all
qed

lemma round32_half_width:
  assumes "0 \<le> w" "w \<le> 8"
  shows "\<exists>r. round32 (w / 2) = Finite r \<and> 0 \<le> r \<and> r \<le> 4"
proof -
  have "\<bar>w / 2\<bar> \<le> 2 powi 2" using assms by simp
  from round32_abs_le [OF this] obtain r where
    "round32 (w / 2) = Finite r" "\<bar>r\<bar> \<le> 2 powi 2" "0 \<le> w / 2 \<longrightarrow> 0 \<le> r" by auto
  then show ?thesis using assms by auto
qed

lemma round32_far:
  assumes "2147483648 \<le> x"
  shows "round32 x = PosInf \<or> (\<exists>r. round32 x = Finite r \<and> 2147483648 \<le> r)"
proof -
  let ?q = "ulp_exp x"
  let ?y = "x / 2 powi ?q"
  let ?r = "real_of_int (round_even ?y) * 2 powi ?q"
  have q8: "8 \<le> ?q"
  proof (rule ccontr)
    assume "\<not> 8 \<le> ?q"
    then have q7: "?q \<le> 7" by simp
    then have "\<bar>x\<bar> < 2 powi (?q + 24)" using ulp_exp_bound [of x] by auto
    also have "\<dots> \<le> 2 powi 31" using q7 by (intro power_int_increasing) simp_all
    finally show False using assms by simp
  qed
  have p: "(0::real) < 2 powi ?q" by simp
  have "2 powi (?q - 1 + 24) \<le> \<bar>x\<bar>"
    by (rule ulp_exp_least) (use q8 in simp_all)
  then have "2 powi (?q + 23) \<le> x" using assms by (simp add: algebra_simps)
  then have "2 powi (?q + 23) / 2 powi ?q \<le> ?y" using p by (simp add: divide_right_mono)
  moreover have "(2::real) powi (?q + 23) / 2 powi ?q = real_of_int 8388608"
    by (simp add: power_int_add)
  ultimately have "real_of_int 8388608 \<le> ?y" by simp
  then have "8388608 \<le> round_even ?y" by (rule round_even_ge)
  then have a: "(8388608::real) \<le> real_of_int (round_even ?y)" by linarith
  have "(2::real) powi 8 \<le> 2 powi ?q" using q8 by (intro power_int_increasing) simp_all
  then have b: "(256::real) \<le> 2 powi ?q" by simp
  have "8388608 * 256 \<le> real_of_int (round_even ?y) * 2 powi ?q"
    using a b by (intro mult_mono) simp_all
  then have r: "2147483648 \<le> ?r" by simp
  show ?thesis
  proof (cases "2 ^ 128 \<le> \<bar>?r\<bar>")
    case True
    then have "round32 x = PosInf" unfolding round32_def Let_def using assms by simp
    then show ?thesis by simp
  next
    case False
    then have "round32 x = Finite ?r" unfolding round32_def Let_def by simp
    then show ?thesis using r by blast
  qed
qed

section \<open>Properties of the bounding-box tests\<close>

lemma trunc_abs:
  fixes d :: real
  shows "\<bar>if 0 \<le> d then \<lfloor>d\<rfloor> else - \<lfloor>- d\<rfloor>\<bar> = \<lfloor>\<bar>d\<bar>\<rfloor>"
proof (cases "0 \<le> d")
  case True
  then show ?thesis by simp
next
  case False
  then have "0 \<le> \<lfloor>- d\<rfloor>" by simp
  then have "\<bar>- \<lfloor>- d\<rfloor>\<bar> = \<lfloor>- d\<rfloor>" by simp
  then show ?thesis using False by simp
qed

lemma floor_abs_small:
  fixes d :: real
  assumes "\<bar>d\<bar> < 16777216"
  shows "0 \<le> \<lfloor>\<bar>d\<bar>\<rfloor>" "\<lfloor>\<bar>d\<bar>\<rfloor> < 16777216"
proof -
  show "0 \<le> \<lfloor>\<bar>d\<bar>\<rfloor>" by simp
  have "real_of_int \<lfloor>\<bar>d\<bar>\<rfloor> \<le> \<bar>d\<bar>" by simp
  with assms have "real_of_int \<lfloor>\<bar>d\<bar>\<rfloor> < 16777216" by linarith
  then show "\<lfloor>\<bar>d\<bar>\<rfloor> < 16777216" by linarith
qed

lemma abs_trunc_in_range:
  assumes "\<bar>d\<bar> < 16777216"
  shows "float_of_int (c_abs (c_int_of_float (Finite d))) = Finite (real_of_int \<lfloor>\<bar>d\<bar>\<rfloor>)"
proof -
  let ?t = "if 0 \<le> d then \<lfloor>d\<rfloor> else - \<lfloor>- d\<rfloor>"
  have a: "\<bar>?t\<bar> = \<lfloor>\<bar>d\<bar>\<rfloor>" by (rule trunc_abs)
  note f = floor_abs_small [OF assms]
  have r: "INT_MIN \<le> ?t \<and> ?t \<le> INT_MAX" "?t \<noteq> INT_MIN"
    using a f unfolding INT_MIN_def INT_MAX_def by linarith+
  have "c_int_of_float (Finite d) = ?t"
    using r(1) by (simp add: c_int_of_float_def Let_def)
  then have "c_abs (c_int_of_float (Finite d)) = \<bar>?t\<bar>"
    using r(2) by (simp add: c_abs_def abs_if)
  then have "c_abs (c_int_of_float (Finite d)) = \<lfloor>\<bar>d\<bar>\<rfloor>" using a by simp
  moreover have "round32 (real_of_int \<lfloor>\<bar>d\<bar>\<rfloor>) = Finite (real_of_int \<lfloor>\<bar>d\<bar>\<rfloor>)"
    using f by (intro round32_of_int) simp
  ultimately show ?thesis by (simp add: float_of_int_def)
qed

text \<open>
  Claim C10 (implicit), with the conditions under which it holds of the code. When the
  box is finite, the timestamps are binary32 numbers, the float difference on each axis
  is exact and below \<open>2 ^ 24\<close> in magnitude, \<open>BBoxContainsPoint\<close> compares the integer part
  \<open>\<lfloor>\<bar>d\<bar>\<rfloor>\<close> of each offset with the half-width; a point one of whose offsets satisfies
  \<open>w2 \<le> \<bar>d\<bar>\<close> and \<open>\<lfloor>\<bar>d\<bar>\<rfloor> < w2\<close> is then reported as contained although the strict
  containment of the specification fails. When the two boxes are finite, the sum of the
  half-widths and the differences of the centres are exact and the latter below \<open>2 ^ 24\<close>,
  \<open>BBoxIntersects\<close> compares the integer parts of the centre distances with the sum.
\<close>

theorem BBox_tests_compare_truncated_distances:
  "(b = box cx cy w \<and>
    exact32 (real_of_int (ts (sp1 p))) \<and> exact32 (real_of_int (ts (sp1 p)) - cx) \<and>
    \<bar>real_of_int (ts (sp1 p)) - cx\<bar> < 16777216 \<and>
    exact32 (real_of_int (ts (sp2 p))) \<and> exact32 (real_of_int (ts (sp2 p)) - cy) \<and>
    \<bar>real_of_int (ts (sp2 p)) - cy\<bar> < 16777216
    \<longrightarrow>
      (BBoxContainsPoint b p \<longleftrightarrow>
         real_of_int \<lfloor>\<bar>real_of_int (ts (sp1 p)) - cx\<bar>\<rfloor> < w \<and>
         real_of_int \<lfloor>\<bar>real_of_int (ts (sp2 p)) - cy\<bar>\<rfloor> < w) \<and>
      (real_of_int \<lfloor>\<bar>real_of_int (ts (sp1 p)) - cx\<bar>\<rfloor> < w \<and>
       real_of_int \<lfloor>\<bar>real_of_int (ts (sp2 p)) - cy\<bar>\<rfloor> < w \<and>
       (w \<le> \<bar>real_of_int (ts (sp1 p)) - cx\<bar> \<or> w \<le> \<bar>real_of_int (ts (sp2 p)) - cy\<bar>)
       \<longrightarrow> BBoxContainsPoint b p \<and> \<not> spec_contains b p)) \<and>
   (b1 = box x1 y1 w1 \<and> b2 = box x2 y2 w2' \<and> exact32 (w1 + w2') \<and>
    exact32 (x2 - x1) \<and> \<bar>x2 - x1\<bar> < 16777216 \<and>
    exact32 (y2 - y1) \<and> \<bar>y2 - y1\<bar> < 16777216
    \<longrightarrow>
      (BBoxIntersects b1 b2 \<longleftrightarrow>
         real_of_int \<lfloor>\<bar>x2 - x1\<bar>\<rfloor> \<le> w1 + w2' \<and> real_of_int \<lfloor>\<bar>y2 - y1\<bar>\<rfloor> \<le> w1 + w2'))"
proof (intro conjI impI)
  assume h: "b = box cx cy w \<and>
    exact32 (real_of_int (ts (sp1 p))) \<and> exact32 (real_of_int (ts (sp1 p)) - cx) \<and>
    \<bar>real_of_int (ts (sp1 p)) - cx\<bar> < 16777216 \<and>
    exact32 (real_of_int (ts (sp2 p))) \<and> exact32 (real_of_int (ts (sp2 p)) - cy) \<and>
    \<bar>real_of_int (ts (sp2 p)) - cy\<bar> < 16777216"
  let ?dx = "real_of_int (ts (sp1 p)) - cx" and ?dy = "real_of_int (ts (sp2 p)) - cy"
  have sx: "float_sub (float_of_int (ts (sp1 p))) (c_x b) = Finite ?dx"
    and sy: "float_sub (float_of_int (ts (sp2 p))) (c_y b) = Finite ?dy"
    using h by (simp_all add: exact32_def float_of_int_def float_sub_def box_def BBoxCreate_def)
  have ax: "float_of_int (c_abs (c_int_of_float (Finite ?dx))) = Finite (real_of_int \<lfloor>\<bar>?dx\<bar>\<rfloor>)"
    and ay: "float_of_int (c_abs (c_int_of_float (Finite ?dy))) = Finite (real_of_int \<lfloor>\<bar>?dy\<bar>\<rfloor>)"
    using h by (simp_all only: abs_trunc_in_range)
  have w: "w2 b = Finite w" using h by (simp add: box_def BBoxCreate_def)
  show iff: "BBoxContainsPoint b p \<longleftrightarrow>
      real_of_int \<lfloor>\<bar>?dx\<bar>\<rfloor> < w \<and> real_of_int \<lfloor>\<bar>?dy\<bar>\<rfloor> < w"
    unfolding BBoxContainsPoint_def Let_def sx sy ax ay w by simp
  assume c: "real_of_int \<lfloor>\<bar>?dx\<bar>\<rfloor> < w \<and> real_of_int \<lfloor>\<bar>?dy\<bar>\<rfloor> < w \<and> (w \<le> \<bar>?dx\<bar> \<or> w \<le> \<bar>?dy\<bar>)"
  show "BBoxContainsPoint b p" using iff c by simp
  show "\<not> spec_contains b p"
    using h c by (auto simp: spec_contains_def box_def BBoxCreate_def)
next
  assume h: "b1 = box x1 y1 w1 \<and> b2 = box x2 y2 w2' \<and> exact32 (w1 + w2') \<and>
    exact32 (x2 - x1) \<and> \<bar>x2 - x1\<bar> < 16777216 \<and>
    exact32 (y2 - y1) \<and> \<bar>y2 - y1\<bar> < 16777216"
  have d: "float_add (w2 b1) (w2 b2) = Finite (w1 + w2')"
    and sx: "float_sub (c_x b2) (c_x b1) = Finite (x2 - x1)"
    and sy: "float_sub (c_y b2) (c_y b1) = Finite (y2 - y1)"
    using h by (simp_all add: exact32_def float_sub_def box_def BBoxCreate_def)
  have ax: "float_of_int (c_abs (c_int_of_float (Finite (x2 - x1)))) = Finite (real_of_int \<lfloor>\<bar>x2 - x1\<bar>\<rfloor>)"
    and ay: "float_of_int (c_abs (c_int_of_float (Finite (y2 - y1)))) = Finite (real_of_int \<lfloor>\<bar>y2 - y1\<bar>\<rfloor>)"
    using h by (simp_all only: abs_trunc_in_range)
  show "BBoxIntersects b1 b2 \<longleftrightarrow>
      real_of_int \<lfloor>\<bar>x2 - x1\<bar>\<rfloor> \<le> w1 + w2' \<and> real_of_int \<lfloor>\<bar>y2 - y1\<bar>\<rfloor> \<le> w1 + w2'"
    unfolding BBoxIntersects_def Let_def d sx sy ax ay by simp
qed

theorem BBox_tests_compare_truncated_distances_witness:
  "exact32 (real_of_int (ts (sp1 (mk_pair 0 6 6)))) \<and>
   exact32 (real_of_int (ts (sp1 (mk_pair 0 6 6))) - 1 / 2) \<and>
   \<bar>real_of_int (ts (sp1 (mk_pair 0 6 6))) - 1 / 2\<bar> < 16777216 \<and>
   (11 / 2 :: real) \<le> \<bar>real_of_int (ts (sp1 (mk_pair 0 6 6))) - 1 / 2\<bar> \<and>
   real_of_int \<lfloor>\<bar>real_of_int (ts (sp1 (mk_pair 0 6 6))) - 1 / 2\<bar>\<rfloor> < (11 / 2 :: real) \<and>
   BBoxContainsPoint (box (1 / 2) (1 / 2) (11 / 2)) (mk_pair 0 6 6) \<and>
   \<not> spec_contains (box (1 / 2) (1 / 2) (11 / 2)) (mk_pair 0 6 6) \<and>
   exact32 (1 / 4 + 1 / 4) \<and> exact32 (3 / 4 - 0) \<and>
   real_of_int \<lfloor>\<bar>3 / 4 - 0 :: real\<bar>\<rfloor> \<le> 1 / 4 + 1 / 4 \<and>
   BBoxIntersects (box 0 0 (1 / 4)) (box (3 / 4) (3 / 4) (1 / 4))"
  using BBox_tests_compare_truncated_distances
    [of "box (1 / 2) (1 / 2) (11 / 2)" "1 / 2" "1 / 2" "11 / 2" "mk_pair 0 6 6"
        "box 0 0 (1 / 4)" 0 0 "1 / 4" "box (3 / 4) (3 / 4) (1 / 4)" "3 / 4" "3 / 4" "1 / 4"]
  by (simp add: exact32_def mk_pair_def create_spike_pair_def create_spike_def
      round32_exact_numerals)

text \<open>
  The claim as it is stated (every point with \<open>w2 \<le> \<bar>d\<bar>\<close> and \<open>\<bar>trunc d\<bar> < w2\<close> is
  reported as contained) fails where the float difference is rounded: for the box with
  centre \<open>(0.125, 0.125)\<close> and half-width \<open>4194303.5\<close> and the point \<open>(4194304, 4194304)\<close>
  the true offset is \<open>4194303.875\<close>, whose integer part \<open>4194303\<close> is below the half-width,
  but the binary32 difference is \<open>4194304.0\<close> and the point is reported as not contained.
\<close>

lemma round32_tie_4194304: "round32 (33554431 / 8) = Finite 4194304"
proof -
  have q: "ulp_exp (33554431 / 8) = - 2"
    by (rule ulp_exp_eq) (simp_all add: power_int_minus)
  have r: "round_even (33554431 / 8 / 2 powi (- 2)) = 16777216"
  proof -
    have "(33554431 / 8 / 2 powi (- 2) :: real) = 33554431 / 2"
      by (simp add: power_int_minus)
    moreover have "\<lfloor>33554431 / 2 :: real\<rfloor> = 16777215" by simp
    ultimately show ?thesis by (simp add: round_even_def Let_def)
  qed
  show ?thesis unfolding round32_def Let_def q r by (simp add: power_int_minus)
qed

theorem BBoxContainsPoint_rounded_offset_counterexample:
  "(8388607 / 2 :: real) \<le> \<bar>real_of_int (ts (sp1 (mk_pair 0 4194304 4194304))) - 1 / 8\<bar> \<and>
   real_of_int \<lfloor>\<bar>real_of_int (ts (sp1 (mk_pair 0 4194304 4194304))) - 1 / 8\<bar>\<rfloor>
     < (8388607 / 2 :: real) \<and>
   \<not> BBoxContainsPoint (box (1 / 8) (1 / 8) (8388607 / 2)) (mk_pair 0 4194304 4194304)"
  by (simp add: BBoxContainsPoint_def box_def BBoxCreate_def mk_pair_def create_spike_pair_def
      create_spike_def Let_def float_eval round32_tie_4194304)

text \<open>
  Claim C6. The claim reads: \<open>BBoxContainsPoint\<close> holds iff \<open>\<bar>x - c_x\<bar> < w2\<close> and
  \<open>\<bar>y - c_y\<bar> < w2\<close>, and \<open>BBoxIntersects\<close> holds iff \<open>\<bar>\<Delta>c_x\<bar> \<le> w1 + w2\<close> and
  \<open>\<bar>\<Delta>c_y\<bar> \<le> w1 + w2\<close>. The code evaluated at two inputs where the integer \<open>abs\<close> makes
  it answer otherwise: the point \<open>(6, 6)\<close> at distance \<open>5.5\<close> from the centre of a box of
  half-width \<open>5.5\<close> is contained, and two boxes of half-width \<open>0.25\<close> whose centres are
  \<open>0.75\<close> apart intersect. All the numbers involved are binary32 numbers, and so are the
  differences and the sum that the code computes.
\<close>

theorem BBox_tests_at_fractional_boxes:
  "BBoxContainsPoint (box (1 / 2) (1 / 2) (11 / 2)) (mk_pair 0 6 6) \<and>
   \<not> spec_contains (box (1 / 2) (1 / 2) (11 / 2)) (mk_pair 0 6 6) \<and>
   \<not> (\<bar>real_of_int (ts (sp1 (mk_pair 0 6 6))) - 1 / 2\<bar> < (11 / 2 :: real)) \<and>
   BBoxIntersects (box 0 0 (1 / 4)) (box (3 / 4) (3 / 4) (1 / 4)) \<and>
   \<not> (\<bar>3 / 4 - 0\<bar> \<le> (1 / 4 + 1 / 4 :: real))"
  by (simp add: BBoxContainsPoint_def BBoxIntersects_def box_def BBoxCreate_def mk_pair_def
      create_spike_pair_def create_spike_def Let_def float_eval spec_contains_def)

section \<open>Properties of the causal kernel\<close>

lemmas kernel_eval = GNAT_test_for_edge_def compute_gamma_def Let_def mk_pair_def
  create_spike_pair_def create_spike_def unit_synapse_def LARGE_GAMMA_def float_eval

text \<open>
  The value of \<open>compute_gamma\<close> is rounded at each operation: for the spikes at times 10
  and 11 across a synapse of delay 5 with \<open>\<tau> = 3\<close> it is \<open>999997.6875\<close>, where the real
  numbers give \<open>2999993 / 3\<close>. With \<open>\<tau> = 0\<close> the division gives an infinity, or a NaN when
  the spike arrives exactly after the delay.
\<close>

lemma round32_minus_four_thirds: "round32 (- (4 / 3)) = Finite (- (11184811 / 8388608))"
proof -
  have q: "ulp_exp (- (4 / 3)) = - 23" by (rule ulp_exp_eq) (simp_all add: power_int_minus)
  have e: "(- (4 / 3) / 2 powi (- 23) :: real) = - (33554432 / 3)" by (simp add: power_int_minus)
  have "\<lfloor>- (33554432 / 3) :: real\<rfloor> = - 11184811" by linarith
  then have r: "round_even (- (4 / 3) / 2 powi (- 23)) = - 11184811"
    unfolding e by (simp add: round_even_def Let_def)
  show ?thesis unfolding round32_def Let_def q r by (simp add: power_int_minus)
qed

lemma round32_gamma_sum: "round32 (8388588426581 / 8388608) = Finite (15999963 / 16)"
proof -
  have q: "ulp_exp (8388588426581 / 8388608) = - 4"
    by (rule ulp_exp_eq) (simp_all add: power_int_minus)
  have e: "(8388588426581 / 8388608 / 2 powi (- 4) :: real) = 8388588426581 / 524288"
    by (simp add: power_int_minus)
  have "\<lfloor>8388588426581 / 524288 :: real\<rfloor> = 15999962" by simp
  then have r: "round_even (8388588426581 / 8388608 / 2 powi (- 4)) = 15999963"
    unfolding e by (simp add: round_even_def Let_def)
  show ?thesis unfolding round32_def Let_def q r by (simp add: power_int_minus)
qed

lemma compute_gamma_rounded:
  "compute_gamma (create_spike 0 10) (create_spike 1 11) (unit_synapse 5) (Finite 3)
     = Finite (15999963 / 16)"
proof -
  have a: "round32 (- (11184811 / 8388608)) = Finite (- (11184811 / 8388608))"
    using round32_dyadic [of "- 11184811" 23] by simp
  show ?thesis
    by (simp add: compute_gamma_def Let_def create_spike_def unit_synapse_def LARGE_GAMMA_def
        float_eval round32_minus_four_thirds a round32_gamma_sum)
qed

lemma compute_gamma_tau_zero:
  "compute_gamma (create_spike 0 10) (create_spike 1 12) (unit_synapse 1) (Finite 0) = PosInf"
  "compute_gamma (create_spike 0 10) (create_spike 1 11) (unit_synapse 1) (Finite 0) = NaN"
  "compute_gamma (create_spike 0 10) (create_spike 1 10) (unit_synapse 1) (Finite 0) = NegInf"
  by (simp_all add: compute_gamma_def Let_def create_spike_def unit_synapse_def LARGE_GAMMA_def
      float_eval)

text \<open>
  Claim C1. The claim reads: \<open>compute_gamma\<close> returns the sentinel \<open>LARGE_GAMMA\<close> when
  \<open>\<Delta> = s\<^sup>+.ts - s\<^sup>-.ts < e.delay\<close>, so that a sub-delay pair is never within a threshold
  below the sentinel. The code adds \<open>LARGE_GAMMA\<close> to \<open>e.neg_log_rel_w + (\<Delta> - e.delay) / \<tau>\<close>
  instead. Evaluated at a pre-spike at time 2000000 and a post-spike at time 0 across a
  synapse of delay 1 and relative weight 1 with \<open>\<tau> = 1\<close>: \<open>\<Delta> = -2000000 < 1\<close>, the value
  is \<open>-1000002\<close>, which is below the threshold 1, and \<open>GNAT_test_for_edge\<close> accepts the
  pre-pair \<open>(2000000, 2000010)\<close> for the post-pair \<open>(0, 10)\<close>, two million ticks before it.
  Evaluated at the spikes at times 10 and 11 across a synapse of delay 5: \<open>\<Delta> = 1 < 5\<close> and
  the value is \<open>999995\<close>, not \<open>999999\<close>. Every number here is a binary32 number and every
  operation exact.
\<close>

theorem compute_gamma_accepts_sub_delay_pair:
  "float_lt (float_of_int (c_long (ts (create_spike 1 0) - ts (create_spike 0 2000000))))
     (delay (unit_synapse 1)) \<and>
   compute_gamma (create_spike 0 2000000) (create_spike 1 0) (unit_synapse 1) (Finite 1)
     = Finite (- 1000002) \<and>
   float_le (compute_gamma (create_spike 0 2000000) (create_spike 1 0) (unit_synapse 1) (Finite 1))
     (Finite 1) \<and>
   GNAT_test_for_edge (mk_pair 0 2000000 2000010) (mk_pair 1 0 10) (unit_synapse 1)
     (Finite 1) (Finite 1) \<and>
   float_lt (float_of_int (c_long (ts (create_spike 1 11) - ts (create_spike 0 10))))
     (delay (unit_synapse 5)) \<and>
   compute_gamma (create_spike 0 10) (create_spike 1 11) (unit_synapse 5) (Finite 1)
     = Finite 999995 \<and>
   float_of_int LARGE_GAMMA = Finite 999999"
  by (simp add: kernel_eval)

text \<open>
  Claim C2. \<open>GNAT_test_for_edge\<close> accepts exactly when both positional causal distances
  are at most the threshold: the first pre-spike is paired with the first post-spike and
  the second with the second. No other alignment is tried: the pre-pair \<open>(10, 20)\<close> and
  the post-pair \<open>(21, 11)\<close>, which would pass if the pairs were crossed, are rejected.
  The comparison is the one of binary32: it is false when a distance or the threshold is
  a NaN.
\<close>

theorem GNAT_test_for_edge_positional:
  "(GNAT_test_for_edge pre post e tau thresh \<longleftrightarrow>
      float_le (compute_gamma (sp1 pre) (sp1 post) e tau) thresh \<and>
      float_le (compute_gamma (sp2 pre) (sp2 post) e tau) thresh) \<and>
   float_le (compute_gamma (sp1 (mk_pair 0 10 20)) (sp2 (mk_pair 1 21 11)) (unit_synapse 1)
     (Finite 1)) (Finite 1) \<and>
   float_le (compute_gamma (sp2 (mk_pair 0 10 20)) (sp1 (mk_pair 1 21 11)) (unit_synapse 1)
     (Finite 1)) (Finite 1) \<and>
   \<not> GNAT_test_for_edge (mk_pair 0 10 20) (mk_pair 1 21 11) (unit_synapse 1)
     (Finite 1) (Finite 1)"
proof -
  have "GNAT_test_for_edge pre post e tau thresh \<longleftrightarrow>
      float_le (compute_gamma (sp1 pre) (sp1 post) e tau) thresh \<and>
      float_le (compute_gamma (sp2 pre) (sp2 post) e tau) thresh"
    by (simp add: GNAT_test_for_edge_def Let_def)
  moreover have "float_le (compute_gamma (sp1 (mk_pair 0 10 20)) (sp2 (mk_pair 1 21 11))
      (unit_synapse 1) (Finite 1)) (Finite 1)"
    by (simp add: kernel_eval)
  moreover have "float_le (compute_gamma (sp2 (mk_pair 0 10 20)) (sp1 (mk_pair 1 21 11))
      (unit_synapse 1) (Finite 1)) (Finite 1)"
    by (simp add: kernel_eval)
  moreover have "\<not> GNAT_test_for_edge (mk_pair 0 10 20) (mk_pair 1 21 11) (unit_synapse 1)
      (Finite 1) (Finite 1)"
    by (simp add: kernel_eval)
  ultimately show ?thesis by blast
qed

section \<open>Points on the splitting lines\<close>

lemmas quadtree_eval = BBoxContainsPoint_def BBoxIntersects_def BBoxCreate_def box_def mk_pair_def
  create_spike_pair_def create_spike_def QTreeCreate_def
  is_leaf_def QT_MAX_CAP_def try_children_def pop_pair_def QTreeSubdivide_def Let_def
  QTreeSubdivide_loop.simps QTreeInsert.simps visited_def collect_def point_def float_eval

text \<open>
  Claim C3. The round trip fails on the code: the five pairwise distinct points \<open>(0, 1)\<close>,
  \<open>(0, 2)\<close>, \<open>(0, 3)\<close>, \<open>(0, 4)\<close>, \<open>(0, 5)\<close> lie strictly inside the root box of half-width 8
  around the origin. The first four are accepted; the fifth makes the root subdivide, no
  child contains a point with \<open>x = 0\<close>, so the four stored pairs are dropped by the loop
  of \<open>QTreeSubdivide\<close> and the fifth insertion returns \<open>FALSE\<close>. The query with the root box
  then visits nothing.
\<close>

theorem roundtrip_loses_points_on_split_lines:
  "list_all (spec_contains root8) (on_split_line @ [mk_pair 0 0 5]) \<and>
   distinct (map point (on_split_line @ [mk_pair 0 0 5])) \<and>
   insert_all (Suc (Suc n)) (QTreeCreate root8) (on_split_line @ [mk_pair 0 0 5])
     = Inr (split_node [], [True, True, True, True, False]) \<and>
   visited (split_node []) root8 = []"
  by (simp add: quadtree_eval spec_contains_def root8_def on_split_line_def split_node_def)

text \<open>
  Claim C4. Subdivision does not preserve the stored pairs: the leaf that holds the four
  pairs on the line \<open>x = 0\<close> subdivides when \<open>(1, 1)\<close> is inserted, and afterwards the subtree
  stores \<open>(1, 1)\<close> only.
\<close>

theorem subdivision_drops_points_on_split_lines:
  "insert_all (Suc n) (QTreeCreate root8) on_split_line
     = Inr (Leaf 4 root8 on_split_line, [True, True, True, True]) \<and>
   stored (Leaf 4 root8 on_split_line) = on_split_line \<and>
   QTreeInsert (Suc (Suc n)) (Leaf 4 root8 on_split_line) (mk_pair 0 1 1)
     = Inr (split_node [mk_pair 0 1 1], True) \<and>
   stored (split_node [mk_pair 0 1 1]) = [mk_pair 0 1 1]"
  by (simp add: quadtree_eval root8_def on_split_line_def split_node_def)

text \<open>
  Claim C7. The point \<open>(0, 5)\<close> is strictly interior to the box of the subdivided node
  of half-width 8, none of the four children contains it, and \<open>QTreeInsert\<close> returns \<open>FALSE\<close>
  through its last branch.
\<close>

theorem insert_reaches_fall_through:
  "\<not> is_leaf (split_node [mk_pair 0 1 1]) \<and>
   spec_contains (bdry (split_node [mk_pair 0 1 1])) (mk_pair 0 0 5) \<and>
   BBoxContainsPoint (bdry (split_node [mk_pair 0 1 1])) (mk_pair 0 0 5) \<and>
   \<not> BBoxContainsPoint (bdry (NW (split_node [mk_pair 0 1 1]))) (mk_pair 0 0 5) \<and>
   \<not> BBoxContainsPoint (bdry (SW (split_node [mk_pair 0 1 1]))) (mk_pair 0 0 5) \<and>
   \<not> BBoxContainsPoint (bdry (NE (split_node [mk_pair 0 1 1]))) (mk_pair 0 0 5) \<and>
   \<not> BBoxContainsPoint (bdry (SE (split_node [mk_pair 0 1 1]))) (mk_pair 0 0 5) \<and>
   QTreeInsert (Suc (Suc n)) (split_node [mk_pair 0 1 1]) (mk_pair 0 0 5)
     = Inr (split_node [mk_pair 0 1 1], False)"
  by (simp add: quadtree_eval spec_contains_def root8_def split_node_def)

section \<open>Range traversal\<close>

text \<open>
  Claim C5. A stored point strictly inside the query region can be missed: the root box
  with centre \<open>(-0.875, -0.875)\<close> and half-width \<open>0.5\<close> accepts the point \<open>(0, 0)\<close> (the offset
  \<open>0.875\<close> is truncated to 0). The point lies strictly inside the region with centre
  \<open>(0.25, 0.25)\<close> and half-width \<open>0.375\<close>, but the centres are \<open>1.125\<close> apart, which is
  truncated to 1 and exceeds \<open>0.5 + 0.375\<close>: \<open>BBoxIntersects\<close> fails at the root and the
  traversal visits nothing.
\<close>

theorem query_misses_point_inside_fractional_region:
  "QTreeInsert (Suc n) (QTreeCreate fractional_root) (mk_pair 0 0 0)
     = Inr (Leaf 1 fractional_root [mk_pair 0 0 0], True) \<and>
   stored (Leaf 1 fractional_root [mk_pair 0 0 0]) = [mk_pair 0 0 0] \<and>
   spec_contains fractional_query (mk_pair 0 0 0) \<and>
   BBoxContainsPoint fractional_query (mk_pair 0 0 0) \<and>
   visited (Leaf 1 fractional_root [mk_pair 0 0 0]) fractional_query = []"
  by (simp add: quadtree_eval spec_contains_def fractional_root_def fractional_query_def)

section \<open>Scenario D\<close>

lemmas pipeline_eval = gnatfinder_main_def
  RasterReadFile_def RasterInit_def RasterHeadAppend_def RasterReverse_def SpikeListReverse_def
  PhysNetworkInit_def PhysNetworkAddSynapse_def SynapseCreate_def c_neg_log_def Let_def
  create_spike_def create_spike_pair_def spike_equals_def BBoxCreate_def QTreeCreate_def
  BBoxContainsPoint_def BBoxIntersects_def QT_MAX_CAP_def is_leaf_def
  compute_gnat_edges_def initialize_edge_buffer_def finalize_edge_buffer_def flush_edge_buffer_def
  GNAT_visit_def GNAT_add_edge_def GNAT_test_for_edge_def compute_gamma_def LARGE_GAMMA_def
  N_EDGBUF_def fprint_GNAT_edge_def upt_rec numeral_2_eq_2 QTreeInsert.simps float_eval

lemma scenario_D_output:
  "gnatfinder_main (Suc n) 2 scenario_D_spikes scenario_D_network (Finite 1) (Finite 1) (Finite 100)
     = Inr [(0, 10, 20, 1, 11, 21), (0, 10, 30, 1, 11, 31), (0, 20, 30, 1, 21, 31)]"
  by (simp add: pipeline_eval scenario_D_spikes_def scenario_D_network_def)

text \<open>
  Claim C8, as the code has it. In Scenario D the pipeline emits exactly 3 edges:
  \<open>0 10 20 1 11 21\<close>, \<open>0 10 30 1 11 31\<close> and \<open>0 20 30 1 21 31\<close>. Each neuron has the three
  pairs \<open>(a, b)\<close> in which \<open>a\<close> comes before \<open>b\<close> in file order, and each post-pair matches
  the one pre-pair that is one tick earlier in both components.
\<close>

theorem scenario_D_emits_three_edges:
  "gnatfinder_main (Suc n) 2 scenario_D_spikes scenario_D_network (Finite 1) (Finite 1) (Finite 100)
     = Inr [(0, 10, 20, 1, 11, 21), (0, 10, 30, 1, 11, 31), (0, 20, 30, 1, 21, 31)] \<and>
   n_edges (gnatfinder_main (Suc n) 2 scenario_D_spikes scenario_D_network
     (Finite 1) (Finite 1) (Finite 100)) = Some 3"
  by (simp add: scenario_D_output n_edges_def)

text \<open>The count stated by the specification, 6, is not the number of emitted edges.\<close>

theorem scenario_D_six_edges_counterexample:
  "n_edges (gnatfinder_main 1 2 scenario_D_spikes scenario_D_network
     (Finite 1) (Finite 1) (Finite 100)) \<noteq> Some 6"
  using scenario_D_output [of 0] by (simp add: n_edges_def)

section \<open>Insertions that do not return\<close>

text \<open>
  A timestamp that is \<open>2 ^ 31\<close> or more away from the centre of a box makes the conversion
  of the float difference to \<open>int\<close> give \<open>INT_MIN\<close>, which \<open>abs\<close> leaves as it is and which is
  below every half-width that is not negative: the box is reported to contain the point.
\<close>

lemma round32_INT_MIN: "round32 (- 2147483648) = Finite (- 2147483648)"
  by (rule round32_exact [of _ "- 1" 31]) simp_all

lemma far_axis:
  assumes "2147483648 \<le> d"
  shows "float_of_int (c_abs (c_int_of_float (round32 d))) = Finite (- 2147483648)"
proof -
  have "c_int_of_float (round32 d) = INT_MIN"
  proof -
    from round32_far [OF assms] consider "round32 d = PosInf"
      | r where "round32 d = Finite r" "2147483648 \<le> r" by blast
    then show ?thesis
    proof cases
      case 1
      then show ?thesis by (simp add: c_int_of_float_def)
    next
      case 2
      then have "2147483648 \<le> \<lfloor>r\<rfloor>" by linarith
      then show ?thesis using 2 by (simp add: c_int_of_float_def Let_def INT_MAX_def)
    qed
  qed
  then show ?thesis by (simp add: c_abs_def float_of_int_def INT_MIN_def round32_INT_MIN)
qed

lemma far_point_contained:
  assumes b: "small_box b"
    and x: "float_of_int (ts (sp1 p)) = Finite x" "3000000000 \<le> x"
    and y: "float_of_int (ts (sp2 p)) = Finite y" "3000000000 \<le> y"
  shows "BBoxContainsPoint b p"
proof -
  from b obtain cx cy w where c: "c_x b = Finite cx" "c_y b = Finite cy" "w2 b = Finite w"
    and r: "\<bar>cx\<bar> \<le> 134217728" "\<bar>cy\<bar> \<le> 134217728" "0 \<le> w"
    by (auto simp: small_box_def split: float.splits)
  have dx: "2147483648 \<le> x - cx" and dy: "2147483648 \<le> y - cy" using r x(2) y(2) by linarith+
  have sx: "float_sub (float_of_int (ts (sp1 p))) (c_x b) = round32 (x - cx)"
    and sy: "float_sub (float_of_int (ts (sp2 p))) (c_y b) = round32 (y - cy)"
    by (simp_all add: x y c float_sub_def)
  show ?thesis
    unfolding BBoxContainsPoint_def Let_def sx sy
    unfolding far_axis [OF dx] far_axis [OF dy] c
    using r by simp
qed

lemma NW_child_small:
  assumes "small_box b"
  shows "small_box (BBoxCreate (float_sub (c_x b) (float_div (w2 b) (float_of_int 2)))
           (float_add (c_y b) (float_div (w2 b) (float_of_int 2)))
           (float_div (w2 b) (float_of_int 2)))"
proof -
  from assms obtain cx cy w where c: "c_x b = Finite cx" "c_y b = Finite cy" "w2 b = Finite w"
    and r: "\<bar>cx\<bar> \<le> 134217728" "\<bar>cy\<bar> \<le> 134217728" "0 \<le> w" "w \<le> 8"
    by (auto simp: small_box_def split: float.splits)
  from round32_half_width [OF r(3,4)] obtain d where
    d: "round32 (w / 2) = Finite d" "0 \<le> d" "d \<le> 4" by blast
  have d2: "float_div (w2 b) (float_of_int 2) = Finite d"
    by (simp add: c float_eval d)
  have "\<bar>cx - d\<bar> \<le> 134217732" using r d by linarith
  from round32_centre [OF this] obtain x' where
    x': "round32 (cx - d) = Finite x'" "\<bar>x'\<bar> \<le> 134217728" by blast
  have "\<bar>cy + d\<bar> \<le> 134217732" using r d by linarith
  from round32_centre [OF this] obtain y' where
    y': "round32 (cy + d) = Finite y'" "\<bar>y'\<bar> \<le> 134217728" by blast
  show ?thesis
    unfolding d2 unfolding c
    using x' y' d by (simp add: small_box_def BBoxCreate_def float_sub_def)
qed

lemma round32_far_times:
  "round32 3000000000 = Finite 3000000000"
  "round32 3000000256 = Finite 3000000256"
  "round32 3000000512 = Finite 3000000512"
  "round32 3000000768 = Finite 3000000768"
  "round32 3000001024 = Finite 3000001024"
  by (rule round32_exact [of _ 11718750 8], simp_all)
     (rule round32_exact [of _ 11718751 8], simp_all,
      rule round32_exact [of _ 11718752 8], simp_all,
      rule round32_exact [of _ 11718753 8], simp_all,
      rule round32_exact [of _ 11718754 8], simp_all)

lemma far_pairs_contained:
  assumes "small_box b"
  shows "list_all (BBoxContainsPoint b) far_pairs"
proof -
  have "BBoxContainsPoint b (mk_pair 0 t 3000000000)"
    if "round32 (real_of_int t) = Finite (real_of_int t)" "3000000000 \<le> t" for t
    by (rule far_point_contained [OF assms, of _ "real_of_int t" 3000000000])
       (use that in \<open>simp_all add: mk_pair_def create_spike_pair_def create_spike_def
          float_of_int_def round32_far_times\<close>)
  then show ?thesis by (simp add: far_pairs_def round32_far_times)
qed

lemma full_leaf_of_far_pairs_never_returns:
  "small_box b \<Longrightarrow> QTreeInsert n (Leaf 4 b (butlast far_pairs)) (last far_pairs) = Inl OutOfFuel"
proof (induction n arbitrary: b)
  case 0
  show ?case by (simp add: QTreeInsert.simps)
next
  case (Suc n)
  let ?f1 = "mk_pair 0 3000000000 3000000000" and ?f2 = "mk_pair 0 3000000256 3000000000"
    and ?f3 = "mk_pair 0 3000000512 3000000000" and ?f4 = "mk_pair 0 3000000768 3000000000"
    and ?f5 = "mk_pair 0 3000001024 3000000000"
  have bl: "butlast far_pairs = [?f1, ?f2, ?f3, ?f4]" and la: "last far_pairs = ?f5"
    by (simp_all add: far_pairs_def)
  define d2 where "d2 = float_div (w2 b) (float_of_int 2)"
  define bNW where "bNW = BBoxCreate (float_sub (c_x b) d2) (float_add (c_y b) d2) d2"
  define SW where "SW = QTreeCreate (BBoxCreate (float_sub (c_x b) d2) (float_sub (c_y b) d2) d2)"
  define NE where "NE = QTreeCreate (BBoxCreate (float_add (c_x b) d2) (float_add (c_y b) d2) d2)"
  define SE where "SE = QTreeCreate (BBoxCreate (float_add (c_x b) d2) (float_sub (c_y b) d2) d2)"
  have sNW: "small_box bNW" unfolding bNW_def d2_def by (rule NW_child_small) fact
  have "list_all (BBoxContainsPoint b) far_pairs" by (rule far_pairs_contained) fact
  then have c5: "BBoxContainsPoint b ?f5" by (simp add: far_pairs_def)
  have "list_all (BBoxContainsPoint bNW) far_pairs" by (rule far_pairs_contained) fact
  then have c: "BBoxContainsPoint bNW ?f1" "BBoxContainsPoint bNW ?f2"
    "BBoxContainsPoint bNW ?f3" "BBoxContainsPoint bNW ?f4"
    by (simp_all add: far_pairs_def)
  have sub: "QTreeSubdivide ins (Leaf 4 b [?f1, ?f2, ?f3, ?f4]) =
      QTreeSubdivide_loop ins (Node 4 b [?f1, ?f2, ?f3, ?f4] (Leaf 0 bNW []) SW NE SE)" for ins
    by (simp add: QTreeSubdivide_def Let_def QTreeCreate_def bNW_def SW_def NE_def SE_def d2_def)
  have step: "QTreeInsert (Suc n) (Leaf 4 b [?f1, ?f2, ?f3, ?f4]) ?f5 =
      (case QTreeSubdivide_loop (QTreeInsert n)
              (Node 4 b [?f1, ?f2, ?f3, ?f4] (Leaf 0 bNW []) SW NE SE) of
         Inl e \<Rightarrow> Inl e
       | Inr qt' \<Rightarrow> try_children (QTreeInsert n) qt' ?f5)"
    using c5 by (simp add: QTreeInsert.simps QT_MAX_CAP_def is_leaf_def sub)
  show ?case
  proof (cases n)
    case 0
    have "QTreeSubdivide_loop (QTreeInsert 0)
        (Node 4 b [?f1, ?f2, ?f3, ?f4] (Leaf 0 bNW []) SW NE SE) = Inl OutOfFuel"
      by (subst QTreeSubdivide_loop.simps) (simp add: try_children_def pop_pair_def QTreeInsert.simps)
    then show ?thesis by (simp add: bl la 0 step [unfolded 0])
  next
    case (Suc m)
    have i1: "QTreeInsert (Suc m) (Leaf 0 bNW []) ?f1 = Inr (Leaf 1 bNW [?f1], True)"
      using c by (simp add: QTreeInsert.simps QT_MAX_CAP_def is_leaf_def)
    have i2: "QTreeInsert (Suc m) (Leaf 1 bNW [?f1]) ?f2 = Inr (Leaf 2 bNW [?f1, ?f2], True)"
      using c by (simp add: QTreeInsert.simps QT_MAX_CAP_def is_leaf_def)
    have i3: "QTreeInsert (Suc m) (Leaf 2 bNW [?f1, ?f2]) ?f3
        = Inr (Leaf 3 bNW [?f1, ?f2, ?f3], True)"
      using c by (simp add: QTreeInsert.simps QT_MAX_CAP_def is_leaf_def)
    have i4: "QTreeInsert (Suc m) (Leaf 3 bNW [?f1, ?f2, ?f3]) ?f4
        = Inr (Leaf 4 bNW [?f1, ?f2, ?f3, ?f4], True)"
      using c by (simp add: QTreeInsert.simps QT_MAX_CAP_def is_leaf_def)
    have drain: "QTreeSubdivide_loop (QTreeInsert (Suc m))
        (Node 4 b [?f1, ?f2, ?f3, ?f4] (Leaf 0 bNW []) SW NE SE)
          = Inr (Node 0 b [] (Leaf 4 bNW [?f1, ?f2, ?f3, ?f4]) SW NE SE)"
      by (simp add: QTreeSubdivide_loop.simps try_children_def pop_pair_def i1 i2 i3 i4)
    have "QTreeInsert (Suc m) (Leaf 4 bNW (butlast far_pairs)) (last far_pairs) = Inl OutOfFuel"
      using Suc.IH [OF sNW] unfolding Suc .
    then have ih: "QTreeInsert (Suc m) (Leaf 4 bNW [?f1, ?f2, ?f3, ?f4]) ?f5 = Inl OutOfFuel"
      unfolding bl la .
    show ?thesis by (simp add: bl la Suc step [unfolded Suc] drain try_children_def ih)
  qed
qed

lemma small_box_root8: "small_box root8"
  by (simp add: small_box_def root8_def box_def BBoxCreate_def)

lemma far_pairs_fill_root8:
  "insert_all (Suc n) (QTreeCreate root8) (butlast far_pairs)
     = Inr (Leaf 4 root8 (butlast far_pairs), [True, True, True, True])"
proof -
  have "list_all (BBoxContainsPoint root8) far_pairs"
    by (rule far_pairs_contained) (rule small_box_root8)
  then show ?thesis
    by (simp add: far_pairs_def QTreeInsert.simps QTreeCreate_def QT_MAX_CAP_def is_leaf_def)
qed

text \<open>
  Claim C9. The claim reads: on a root box of positive half-width every call of
  \<open>QTreeInsert\<close> on pairs with pairwise distinct points terminates. On the code it does
  not: the five pairs of \<open>far_pairs\<close> are pairwise distinct, as points and as the binary32
  numbers the code compares; the root box of half-width 8 around the origin accepts the
  first four (their offsets convert to \<open>INT_MIN\<close>, and \<open>abs\<close> returns \<open>INT_MIN < 8\<close>); the fifth
  insertion subdivides the root, the north-west child accepts all four drained pairs and is
  full when the fifth pair arrives, and so on at every depth: whatever the bound \<open>fuel\<close> on
  the depth of the recursion, the bound is used up, so the call does not return.
\<close>

theorem QTreeInsert_far_pairs_never_returns:
  "float_lt (Finite 0) (w2 root8) \<and>
   distinct (map point far_pairs) \<and>
   distinct (map (\<lambda>p. (float_of_int (ts (sp1 p)), float_of_int (ts (sp2 p)))) far_pairs) \<and>
   insert_all (Suc n) (QTreeCreate root8) (butlast far_pairs)
     = Inr (Leaf 4 root8 (butlast far_pairs), [True, True, True, True]) \<and>
   QTreeInsert fuel (Leaf 4 root8 (butlast far_pairs)) (last far_pairs) = Inl OutOfFuel \<and>
   insert_all fuel (QTreeCreate root8) far_pairs = Inl OutOfFuel"
proof (intro conjI)
  show "float_lt (Finite 0) (w2 root8)" by (simp add: root8_def box_def BBoxCreate_def)
  show "distinct (map point far_pairs)"
    by (simp add: far_pairs_def point_def mk_pair_def create_spike_pair_def create_spike_def)
  show "distinct (map (\<lambda>p. (float_of_int (ts (sp1 p)), float_of_int (ts (sp2 p)))) far_pairs)"
    by (simp add: far_pairs_def mk_pair_def create_spike_pair_def create_spike_def
        float_of_int_def round32_far_times)
  show "insert_all (Suc n) (QTreeCreate root8) (butlast far_pairs)
     = Inr (Leaf 4 root8 (butlast far_pairs), [True, True, True, True])"
    by (rule far_pairs_fill_root8)
  show never: "QTreeInsert fuel (Leaf 4 root8 (butlast far_pairs)) (last far_pairs) = Inl OutOfFuel"
    by (rule full_leaf_of_far_pairs_never_returns) (rule small_box_root8)
  show "insert_all fuel (QTreeCreate root8) far_pairs = Inl OutOfFuel"
  proof (cases fuel)
    case 0
    show ?thesis unfolding 0 by (simp add: far_pairs_def QTreeInsert.simps)
  next
    case (Suc k)
    have a: "far_pairs = butlast far_pairs @ [last far_pairs]" by (simp add: far_pairs_def)
    have app: "insert_all f qt (xs @ [y]) =
        (case insert_all f qt xs of
           Inl e \<Rightarrow> Inl e
         | Inr (qt', oks) \<Rightarrow>
             (case QTreeInsert f qt' y of
                Inl e \<Rightarrow> Inl e
              | Inr (qt'', ok) \<Rightarrow> Inr (qt'', oks @ [ok])))" for f qt xs y
      by (induction xs arbitrary: qt) (auto split: sum.splits prod.splits)
    show ?thesis
      by (subst a, subst app) (simp add: Suc far_pairs_fill_root8 never [unfolded Suc])
  qed
qed

end
